theory Spec2Isabelle
  imports Complex_Main
begin

section \<open>JavaScript numbers used by the server\<close>

text \<open>
  Counters, sequence numbers, coordinates and block data are integral JavaScript numbers
  and are modelled as \<open>nat\<close> or \<open>int\<close> (exact below \<open>2 ^ 53\<close>). The frame
  time is a fractional number of seconds, an IEEE 754 double: a finite value, given by
  the real number it denotes, or NaN, or an infinity (the sign of a zero is not kept).
\<close>

datatype js_number = Num real | NaN | Infinity | NegInfinity

text \<open>
  Rounding a real to the nearest double, ties to even: \<open>binade a\<close> is the exponent
  \<open>e\<close> with \<open>2 ^ e \<le> a < 2 ^ (e + 1)\<close>, the spacing of the doubles there is
  \<open>2 ^ (e - 52)\<close>, and \<open>2 ^ (- 1074)\<close> below the normal range; what rounds to
  \<open>2 ^ 1024\<close> or more is an infinity.
\<close>

fun ilog2 :: "nat \<Rightarrow> nat" where
  "ilog2 n = (if n < 2 then 0 else Suc (ilog2 (n div 2)))"

definition pow2 :: "int \<Rightarrow> real" where
  "pow2 k = (if 0 \<le> k then 2 ^ nat k else 1 / 2 ^ nat (- k))"

definition binade :: "real \<Rightarrow> int" where
  "binade a =
     (if 1 \<le> a then int (ilog2 (nat \<lfloor>a\<rfloor>))
      else - int (ilog2 (nat (\<lceil>1 / a\<rceil> - 1)) + 1))"

definition round_half_even :: "real \<Rightarrow> int" where
  "round_half_even y =
     (let f = \<lfloor>y\<rfloor>; d = y - of_int f in
      if d < 1 / 2 then f
      else if 1 / 2 < d then f + 1
      else if even f then f else f + 1)"

definition round_double :: "real \<Rightarrow> js_number" where
  "round_double x =
     (if x = 0 then Num 0
      else
        let a = \<bar>x\<bar>;
            q = max (binade a) (- 1022) - 52;
            r = of_int (round_half_even (a / pow2 q)) * pow2 q
        in if 2 ^ 1024 \<le> r then (if 0 < x then Infinity else NegInfinity)
           else Num (if 0 < x then r else - r))"

text \<open>\<open>a * b\<close> on doubles: the exact product, rounded.\<close>

fun js_times :: "js_number \<Rightarrow> js_number \<Rightarrow> js_number" where
  "js_times (Num x) (Num y) = round_double (x * y)"
| "js_times NaN b = NaN"
| "js_times a NaN = NaN"
| "js_times (Num x) Infinity = (if x = 0 then NaN else if 0 < x then Infinity else NegInfinity)"
| "js_times (Num x) NegInfinity = (if x = 0 then NaN else if 0 < x then NegInfinity else Infinity)"
| "js_times Infinity (Num y) = (if y = 0 then NaN else if 0 < y then Infinity else NegInfinity)"
| "js_times NegInfinity (Num y) = (if y = 0 then NaN else if 0 < y then NegInfinity else Infinity)"
| "js_times Infinity Infinity = Infinity"
| "js_times Infinity NegInfinity = NegInfinity"
| "js_times NegInfinity Infinity = NegInfinity"
| "js_times NegInfinity NegInfinity = Infinity"

text \<open>
  The bitwise operators first convert their operand with ToInt32: NaN and the
  infinities become 0; a finite value is truncated towards zero, reduced modulo
  \<open>2 ^ 32\<close> and read as a signed 32-bit value.
\<close>

definition js_trunc :: "real \<Rightarrow> int" where
  "js_trunc x = (if x < 0 then \<lceil>x\<rceil> else \<lfloor>x\<rfloor>)"

definition wrap_int32 :: "int \<Rightarrow> int" where
  "wrap_int32 n = (let m = n mod 2 ^ 32 in if 2 ^ 31 \<le> m then m - 2 ^ 32 else m)"

fun ToInt32 :: "js_number \<Rightarrow> int" where
  "ToInt32 (Num x) = wrap_int32 (js_trunc x)"
| "ToInt32 other = 0"

text \<open>\<open>x | 0\<close>\<close>

definition js_bitor0 :: "js_number \<Rightarrow> int" where
  "js_bitor0 x = ToInt32 x"

text \<open>\<open>a >> k\<close> on an integral operand, for a shift count below 32\<close>

definition js_shr :: "int \<Rightarrow> nat \<Rightarrow> int" where
  "js_shr a k = wrap_int32 a div 2 ^ k"

section \<open>Data model\<close>

type_synonym pref = nat \<comment> \<open>identity of a ServerPlayer object\<close>
type_synonym eref = nat \<comment> \<open>identity of an Entity object\<close>
type_synonym vref = nat \<comment> \<open>identity of a ChunkView object\<close>
type_synonym vec = "real list"

text \<open>
  A \<open>gf.net.User\<close> is created by the session. Its immutable fields are this record;
  its mutable \<open>data\<close> slot lives in the game state, keyed by the user.
\<close>

record user =
  sessionId :: nat
  wireId :: nat

record entity_state =
  position :: vec
  rotation :: vec
  velocity :: vec
  time :: int

record entity =
  ent_id :: nat
  ent_flags :: nat
  ent_player :: "pref option"
  ent_state :: entity_state
  hasSentLatestState :: bool

datatype move_command = MoveCommand (sequence: int) (actions: nat)

record movement =
  mv_view :: vref
  mv_target :: "eref option"
  lastSequence :: int
  lastSequenceSent :: int
  mv_queue :: "move_command list"

record player =
  pl_user :: user
  pl_entity :: "eref option"
  pl_view :: "vref option"
  pl_movement :: "movement option"
  pl_disposed :: bool

datatype chunk_radius = LOW_CHUNK_RADIUS_XZ | HIGH_CHUNK_RADIUS_XZ

record chunk_view =
  cv_radius :: chunk_radius
  cv_observers :: "pref list"
  cv_center :: "vec option"
  cv_disposed :: bool

datatype packet =
    EntityCreate nat nat nat vec vec vec
  | EntityDelete nat
  | EntityPosition int "entity_state list"
  | ReadyPlayer
  | SetBlock int int int int

datatype log_line = ClientConnected user | ClientDisconnected user | UnknownBlockType

datatype js_error = TypeError

record frame =
  frame_time :: js_number

text \<open>
  The server: the objects it has allocated (stores from object identity to object), the
  roster \<open>state.players\<close>, the entity table \<open>map.entities\<close>, the registered chunk
  views, the block-type registry and the block cells of the map, the id counter, and
  what it has handed to the session (\<open>outbox\<close>: a packet with its target, \<open>None\<close>
  for a broadcast), the chat service and the log.
\<close>

record game =
  user_data :: "user \<Rightarrow> pref option"
  player_objs :: "pref \<Rightarrow> player"
  entity_objs :: "eref \<Rightarrow> entity"
  view_objs :: "vref \<Rightarrow> chunk_view"
  next_ref :: nat
  players :: "pref list"
  entities :: "eref list"
  chunkViews :: "vref list"
  blockSet :: "int set"
  blocks :: "int \<times> int \<times> int \<Rightarrow> int"
  nextEntityId :: nat
  outbox :: "(packet \<times> user option) list"
  chat_members :: "(user \<times> string) list"
  log_lines :: "log_line list"

section \<open>Collaborators that are not part of servergame.js\<close>

text \<open>
  Modelled from the spec: \<open>gf.log.write\<close> is missing; a refused request is reported,
  not broadcast, and so are connects and disconnects.
\<close>

definition log_write :: "log_line \<Rightarrow> game \<Rightarrow> game" where
  "log_write l g = g\<lparr>log_lines := log_lines g @ [l]\<rparr>"

text \<open>
  Modelled from the spec: the session is missing. \<open>session.send(packet, user)\<close>, and
  \<open>session.send(packet)\<close> for a broadcast to all connected users, is fire and forget:
  the packet is handed to the transport.
\<close>

definition session_send :: "packet \<Rightarrow> user option \<Rightarrow> game \<Rightarrow> game" where
  "session_send pk target g = g\<lparr>outbox := outbox g @ [(pk, target)]\<rparr>"

text \<open>
  Modelled from the spec: \<open>new ServerPlayer(game, user)\<close> is missing; a Player is an
  identity reference to a network user with an optional entity, view and movement
  controller, all absent at creation.
\<close>

definition ServerPlayer_new :: "user \<Rightarrow> player" where
  "ServerPlayer_new u =
     \<lparr>pl_user = u, pl_entity = None, pl_view = None, pl_movement = None, pl_disposed = False\<rparr>"

text \<open>
  Modelled from the spec: \<open>GameState.addPlayer\<close> and \<open>GameState.removePlayer\<close> are
  missing; they register a player in the roster and remove the player of a user from it.
\<close>

definition addPlayer :: "pref \<Rightarrow> game \<Rightarrow> game" where
  "addPlayer p g = g\<lparr>players := players g @ [p]\<rparr>"

definition removePlayer :: "user \<Rightarrow> game \<Rightarrow> game" where
  "removePlayer u g =
     g\<lparr>players := filter (\<lambda>p. pl_user (player_objs g p) \<noteq> u) (players g)\<rparr>"

text \<open>
  Modelled from the spec: the chat service is missing; \<open>chat.join(user, channel)\<close> is an
  external collaborator call that adds the user to a channel.
\<close>

definition chat_join :: "user \<Rightarrow> string \<Rightarrow> game \<Rightarrow> game" where
  "chat_join u channel g = g\<lparr>chat_members := chat_members g @ [(u, channel)]\<rparr>"

text \<open>
  Modelled from the spec: \<open>blk.env.ChunkView\<close> is missing. A view has a radius, holds
  observers and is initialized with a center; \<open>setBlock\<close> writes the cell through the
  view and reports whether the stored value actually changed.
\<close>

definition ChunkView_new :: "chunk_radius \<Rightarrow> chunk_view" where
  "ChunkView_new r = \<lparr>cv_radius = r, cv_observers = [], cv_center = None, cv_disposed = False\<rparr>"

definition addObserver :: "vref \<Rightarrow> pref \<Rightarrow> game \<Rightarrow> game" where
  "addObserver v p g =
     g\<lparr>view_objs := (view_objs g)
        (v := (view_objs g v)\<lparr>cv_observers := cv_observers (view_objs g v) @ [p]\<rparr>)\<rparr>"

definition ChunkView_initialize :: "vref \<Rightarrow> vec \<Rightarrow> game \<Rightarrow> game" where
  "ChunkView_initialize v c g =
     g\<lparr>view_objs := (view_objs g)(v := (view_objs g v)\<lparr>cv_center := Some c\<rparr>)\<rparr>"

definition ChunkView_setBlock :: "vref \<Rightarrow> int \<Rightarrow> int \<Rightarrow> int \<Rightarrow> int \<Rightarrow> game \<Rightarrow> bool \<times> game" where
  "ChunkView_setBlock v x y z blockData g =
     (blocks g (x, y, z) \<noteq> blockData, g\<lparr>blocks := (blocks g)((x, y, z) := blockData)\<rparr>)"

text \<open>
  Modelled from the spec: \<open>goog.dispose\<close> is missing; it releases the view and the
  player, which are marked disposed.
\<close>

definition dispose_view :: "vref \<Rightarrow> game \<Rightarrow> game" where
  "dispose_view v g =
     g\<lparr>view_objs := (view_objs g)(v := (view_objs g v)\<lparr>cv_disposed := True\<rparr>)\<rparr>"

definition dispose_player :: "pref \<Rightarrow> game \<Rightarrow> game" where
  "dispose_player p g =
     g\<lparr>player_objs := (player_objs g)(p := (player_objs g p)\<lparr>pl_disposed := True\<rparr>)\<rparr>"

text \<open>
  Modelled from the spec: the map's \<open>addChunkView\<close>, \<open>removeChunkView\<close>,
  \<open>addEntity\<close> and \<open>removeEntity\<close> are missing; they register and unregister a view,
  and add an entity to and remove it from the entity table.
\<close>

definition addChunkView :: "vref \<Rightarrow> game \<Rightarrow> game" where
  "addChunkView v g = g\<lparr>chunkViews := chunkViews g @ [v]\<rparr>"

definition removeChunkView :: "vref \<Rightarrow> game \<Rightarrow> game" where
  "removeChunkView v g = g\<lparr>chunkViews := removeAll v (chunkViews g)\<rparr>"

definition addEntity :: "eref \<Rightarrow> game \<Rightarrow> game" where
  "addEntity e g = g\<lparr>entities := entities g @ [e]\<rparr>"

definition removeEntity :: "eref \<Rightarrow> game \<Rightarrow> game" where
  "removeEntity e g = g\<lparr>entities := removeAll e (entities g)\<rparr>"

text \<open>
  Modelled from the spec: \<open>new blk.env.Entity(id)\<close> and the flag constant are missing.
  A new entity carries the id it is given, no flags, no owner and a state not yet sent.
\<close>

definition USER_CONTROLLED :: nat where
  "USER_CONTROLLED = 1"

definition Entity_new :: "nat \<Rightarrow> entity" where
  "Entity_new i =
     \<lparr>ent_id = i, ent_flags = 0, ent_player = None,
      ent_state = \<lparr>position = [0, 0, 0], rotation = [0, 0, 0, 1], velocity = [0, 0, 0], time = 0\<rparr>,
      hasSentLatestState = False\<rparr>"

text \<open>
  Modelled from the spec: \<open>blk.physics.ServerMovement\<close> is missing. A controller is
  attached to one entity through the player's view, holds an ordered queue of pending
  commands and the two counters; \<open>queueCommands\<close> appends to the queue.
\<close>

definition ServerMovement_new :: "vref \<Rightarrow> movement" where
  "ServerMovement_new v =
     \<lparr>mv_view = v, mv_target = None, lastSequence = 0, lastSequenceSent = 0, mv_queue = []\<rparr>"

definition attach :: "eref \<Rightarrow> movement \<Rightarrow> movement" where
  "attach e m = m\<lparr>mv_target := Some e\<rparr>"

definition queueCommands :: "move_command list \<Rightarrow> movement \<Rightarrow> movement" where
  "queueCommands commands m = m\<lparr>mv_queue := mv_queue m @ commands\<rparr>"

section \<open>The game server\<close>

text \<open>Assignments to a field of a player or entity object.\<close>

definition update_player :: "pref \<Rightarrow> (player \<Rightarrow> player) \<Rightarrow> game \<Rightarrow> game" where
  "update_player p f g = g\<lparr>player_objs := (player_objs g)(p := f (player_objs g p))\<rparr>"

definition update_entity :: "eref \<Rightarrow> (entity \<Rightarrow> entity) \<Rightarrow> game \<Rightarrow> game" where
  "update_entity e f g = g\<lparr>entity_objs := (entity_objs g)(e := f (entity_objs g e))\<rparr>"

subsection \<open>Construction\<close>

text \<open>
  The constructor: a fresh map and game state, nothing connected, \<open>nextEntityId_ = 0\<close>.
  The registered block types come with the map parameters and are a parameter here; the
  cells of the fresh map are empty.
\<close>

definition ServerGame_new :: "int set \<Rightarrow> game" where
  "ServerGame_new registered =
     \<lparr>user_data = (\<lambda>u. None),
      player_objs = (\<lambda>p. ServerPlayer_new \<lparr>sessionId = 0, wireId = 0\<rparr>),
      entity_objs = (\<lambda>e. Entity_new 0),
      view_objs = (\<lambda>v. ChunkView_new HIGH_CHUNK_RADIUS_XZ),
      next_ref = 0,
      players = [],
      entities = [],
      chunkViews = [],
      blockSet = registered,
      blocks = (\<lambda>c. 0),
      nextEntityId = 0,
      outbox = [],
      chat_members = [],
      log_lines = []\<rparr>"

subsection \<open>update\<close>

text \<open>The timestamp of a tick: \<open>(frame.time * 1000) | 0\<close>.\<close>

definition frame_stamp :: "frame \<Rightarrow> int" where
  "frame_stamp fr = js_bitor0 (js_times (frame_time fr) (Num 1000))"

text \<open>
  The scan of the entity table: an entity whose latest state was not sent is stamped,
  its state joins \<open>entityStates\<close>, and it is marked sent.
\<close>

fun scan_entities ::
  "frame \<Rightarrow> eref list \<Rightarrow> (eref \<Rightarrow> entity) \<Rightarrow> entity_state list
     \<Rightarrow> (eref \<Rightarrow> entity) \<times> entity_state list" where
  "scan_entities fr [] objs entityStates = (objs, entityStates)"
| "scan_entities fr (r # rs) objs entityStates =
     (let entity = objs r in
      if \<not> hasSentLatestState entity then
        let st = (ent_state entity)\<lparr>time := frame_stamp fr\<rparr>;
            entity' = entity\<lparr>ent_state := st, hasSentLatestState := True\<rparr>
        in scan_entities fr rs (objs(r := entity')) (entityStates @ [st])
      else scan_entities fr rs objs entityStates)"

text \<open>
  The loop over the roster: the sequence to confirm is \<open>-1\<close> unless the player has a
  movement controller; the packet is sent only if there are entity states or a sequence
  to confirm.
\<close>

fun send_positions :: "entity_state list \<Rightarrow> pref list \<Rightarrow> game \<Rightarrow> game" where
  "send_positions entityStates [] g = g"
| "send_positions entityStates (p # ps) g =
     (let pl = player_objs g p;
          needsSequenceUpdate =
            (case pl_movement pl of None \<Rightarrow> False
             | Some m \<Rightarrow> lastSequence m \<noteq> lastSequenceSent m);
          sequence =
            (case pl_movement pl of None \<Rightarrow> - 1 | Some m \<Rightarrow> lastSequence m);
          g1 = (case pl_movement pl of None \<Rightarrow> g
                | Some m \<Rightarrow>
                    update_player p
                      (\<lambda>q. q\<lparr>pl_movement := Some (m\<lparr>lastSequenceSent := lastSequence m\<rparr>)\<rparr>) g);
          g2 = (if entityStates \<noteq> [] \<or> needsSequenceUpdate
                then session_send (EntityPosition sequence entityStates) (Some (pl_user pl)) g1
                else g1)
      in send_positions entityStates ps g2)"

text \<open>
  The first half of \<open>update\<close>: \<open>session.poll()\<close>, \<open>player.update(frame)\<close> for
  every player of the roster, and \<open>state.update(frame)\<close>. The three callees are not
  part of servergame.js and are parameters; the roster is read when the loop starts.
\<close>

definition update_simulate ::
  "(game \<Rightarrow> game) \<Rightarrow> (frame \<Rightarrow> pref \<Rightarrow> game \<Rightarrow> game) \<Rightarrow> (frame \<Rightarrow> game \<Rightarrow> game)
     \<Rightarrow> frame \<Rightarrow> game \<Rightarrow> game" where
  "update_simulate poll player_update state_update fr g =
     (let g1 = poll g;
          g2 = fold (player_update fr) (players g1) g1
      in state_update fr g2)"

text \<open>The second half: the scan and the loop that broadcasts pending updates.\<close>

definition update_broadcast :: "frame \<Rightarrow> game \<Rightarrow> game" where
  "update_broadcast fr g =
     (let scanned = scan_entities fr (entities g) (entity_objs g) [];
          g1 = g\<lparr>entity_objs := fst scanned\<rparr>
      in send_positions (snd scanned) (players g1) g1)"

definition update ::
  "(game \<Rightarrow> game) \<Rightarrow> (frame \<Rightarrow> pref \<Rightarrow> game \<Rightarrow> game) \<Rightarrow> (frame \<Rightarrow> game \<Rightarrow> game)
     \<Rightarrow> frame \<Rightarrow> game \<Rightarrow> game" where
  "update poll player_update state_update fr g =
     update_broadcast fr (update_simulate poll player_update state_update fr g)"

text \<open>Collaborators that do nothing: no packet arrived, nothing moved.\<close>

definition idle_poll :: "game \<Rightarrow> game" where
  "idle_poll g = g"

definition idle_player_update :: "frame \<Rightarrow> pref \<Rightarrow> game \<Rightarrow> game" where
  "idle_player_update fr p g = g"

definition idle_state_update :: "frame \<Rightarrow> game \<Rightarrow> game" where
  "idle_state_update fr g = g"

subsection \<open>handleUserConnect\<close>

text \<open>
  The arguments of \<open>EntityCreate.createData\<close> for an entity: the owner's wire id, or
  \<open>0xFF\<close> when the entity has no player.
\<close>

definition entity_create_data :: "(pref \<Rightarrow> player) \<Rightarrow> entity \<Rightarrow> packet" where
  "entity_create_data objs entity =
     EntityCreate (ent_id entity) (ent_flags entity)
       (case ent_player entity of
          Some q \<Rightarrow> wireId (pl_user (objs q))
        | None \<Rightarrow> 255)
       (position (ent_state entity)) (rotation (ent_state entity))
       (velocity (ent_state entity))"

fun send_existing_entities :: "user \<Rightarrow> eref list \<Rightarrow> game \<Rightarrow> game" where
  "send_existing_entities u [] g = g"
| "send_existing_entities u (r # rs) g =
     send_existing_entities u rs
       (session_send (entity_create_data (player_objs g) (entity_objs g r)) (Some u) g)"

definition handleUserConnect :: "user \<Rightarrow> game \<Rightarrow> game" where
  "handleUserConnect u g0 =
     (let g1 = log_write (ClientConnected u) g0;
          p = next_ref g1;
          g2 = g1\<lparr>player_objs := (player_objs g1)(p := ServerPlayer_new u), next_ref := p + 1\<rparr>;
          g3 = g2\<lparr>user_data := (user_data g2)(u := Some p)\<rparr>;
          g4 = addPlayer p g3;
          g5 = chat_join u ''main'' g4;
          spawnPosition = [0, 80, 0];
          v = next_ref g5;
          g6 = g5\<lparr>view_objs := (view_objs g5)(v := ChunkView_new HIGH_CHUNK_RADIUS_XZ),
                 next_ref := v + 1\<rparr>;
          g7 = addChunkView v g6;
          g8 = update_player p (\<lambda>q. q\<lparr>pl_view := Some v\<rparr>) g7;
          g9 = addObserver v p g8;
          g10 = ChunkView_initialize v spawnPosition g9;
          g11 = send_existing_entities u (entities g10) g10;
          e = next_ref g11;
          g12 = g11\<lparr>entity_objs := (entity_objs g11)(e := Entity_new (nextEntityId g11)),
                   next_ref := e + 1, nextEntityId := nextEntityId g11 + 1\<rparr>;
          g13 = addEntity e g12;
          g14 = update_entity e
                  (\<lambda>en. en\<lparr>ent_state := (ent_state en)\<lparr>position := spawnPosition\<rparr>\<rparr>) g13;
          g15 = update_entity e (\<lambda>en. en\<lparr>ent_flags := USER_CONTROLLED, ent_player := Some p\<rparr>) g14;
          g16 = update_player p (\<lambda>q. q\<lparr>pl_entity := Some e\<rparr>) g15;
          g17 = update_player p (\<lambda>q. q\<lparr>pl_movement := Some (attach e (ServerMovement_new v))\<rparr>) g16;
          g18 = session_send (entity_create_data (player_objs g17) (entity_objs g17 e)) None g17
      in session_send ReadyPlayer (Some u) g18)"

subsection \<open>handleUserDisconnect\<close>

definition handleUserDisconnect :: "user \<Rightarrow> game \<Rightarrow> game" where
  "handleUserDisconnect u g0 =
     (let g1 = log_write (ClientDisconnected u) g0 in
      case user_data g1 u of
        None \<Rightarrow> g1
      | Some p \<Rightarrow>
          (let g2 = (case pl_entity (player_objs g1 p) of
                       None \<Rightarrow> g1
                     | Some e \<Rightarrow>
                         session_send (EntityDelete (ent_id (entity_objs g1 e))) None
                           (removeEntity e g1));
               g3 = (case pl_view (player_objs g2 p) of
                       None \<Rightarrow> g2
                     | Some v \<Rightarrow>
                         update_player p (\<lambda>q. q\<lparr>pl_view := None\<rparr>)
                           (dispose_view v (removeChunkView v g2)));
               g4 = removePlayer u g3
           in dispose_player p g4))"

subsection \<open>setBlock\<close>

definition setBlock :: "user \<Rightarrow> int \<Rightarrow> int \<Rightarrow> int \<Rightarrow> int \<Rightarrow> game \<Rightarrow> bool \<times> game" where
  "setBlock u x y z blockData g =
     (case user_data g u of
        None \<Rightarrow> (False, g)
      | Some p \<Rightarrow>
          (case pl_view (player_objs g p) of
             None \<Rightarrow> (False, g)
           | Some v \<Rightarrow>
               if blockData \<noteq> 0 \<and> js_shr blockData 8 \<notin> blockSet g
               then (False, log_write UnknownBlockType g)
               else
                 (let r = ChunkView_setBlock v x y z blockData g;
                      changed = fst r;
                      g1 = snd r;
                      g2 = (if changed
                            then session_send (SetBlock x y z blockData) None g1
                            else g1)
                  in (True, g2))))"

subsection \<open>movePlayer\<close>

text \<open>
  \<open>user.data\<close> is read as a non-null player: without one, \<open>player.movement\<close> raises.
\<close>

definition movePlayer :: "user \<Rightarrow> move_command list \<Rightarrow> game \<Rightarrow> js_error + bool \<times> game" where
  "movePlayer u commands g =
     (case user_data g u of
        None \<Rightarrow> Inl TypeError
      | Some p \<Rightarrow>
          (case pl_movement (player_objs g p) of
             Some m \<Rightarrow>
               Inr (True, update_player p (\<lambda>q. q\<lparr>pl_movement := Some (queueCommands commands m)\<rparr>) g)
           | None \<Rightarrow> Inr (True, g)))"

section \<open>Notions used in the statements\<close>

text \<open>The view a \<open>setBlock\<close> request is applied through: that of the user's player.\<close>

definition requester_view :: "game \<Rightarrow> user \<Rightarrow> vref option" where
  "requester_view g u =
     (case user_data g u of None \<Rightarrow> None | Some p \<Rightarrow> pl_view (player_objs g p))"

text \<open>The id of the entity that the player of a user owns.\<close>

definition owned_entity_id :: "game \<Rightarrow> user \<Rightarrow> nat option" where
  "owned_entity_id g u =
     (case user_data g u of
        None \<Rightarrow> None
      | Some p \<Rightarrow>
          (case pl_entity (player_objs g p) of
             None \<Rightarrow> None
           | Some e \<Rightarrow> Some (ent_id (entity_objs g e))))"

text \<open>
  Every owner recorded in the entity table is an allocated player object: the next
  object to be created is not yet referenced.
\<close>

definition owners_allocated :: "game \<Rightarrow> bool" where
  "owners_allocated g =
     (\<forall>r \<in> set (entities g). \<forall>q. ent_player (entity_objs g r) = Some q \<longrightarrow> q < next_ref g)"

text \<open>
  What happens to a server during its lifetime, and the entity ids it assigns: one per
  connect, read from the entity the new player owns.
\<close>

datatype event =
    Connect user
  | Disconnect user
  | Edit user int int int int
  | Tick frame

fun is_connect :: "event \<Rightarrow> bool" where
  "is_connect (Connect u) = True"
| "is_connect ev = False"

fun assigned_ids :: "event list \<Rightarrow> game \<Rightarrow> nat option list" where
  "assigned_ids [] g = []"
| "assigned_ids (Connect u # evs) g =
     (let g' = handleUserConnect u g in owned_entity_id g' u # assigned_ids evs g')"
| "assigned_ids (Disconnect u # evs) g = assigned_ids evs (handleUserDisconnect u g)"
| "assigned_ids (Edit u x y z b # evs) g = assigned_ids evs (snd (setBlock u x y z b g))"
| "assigned_ids (Tick fr # evs) g =
     assigned_ids evs (update idle_poll idle_player_update idle_state_update fr g)"

text \<open>
  The tick: the states that the scan collects (the delta set), whether a player has a
  sequence to confirm, the sequence its packet carries, the player after the loop has
  visited it, and the packet the loop sends for it, if any.
\<close>

definition delta_set :: "frame \<Rightarrow> game \<Rightarrow> entity_state list" where
  "delta_set fr g = snd (scan_entities fr (entities g) (entity_objs g) [])"

definition sequence_pending :: "player \<Rightarrow> bool" where
  "sequence_pending pl =
     (case pl_movement pl of None \<Rightarrow> False | Some m \<Rightarrow> lastSequence m \<noteq> lastSequenceSent m)"

definition ack_sequence :: "player \<Rightarrow> int" where
  "ack_sequence pl = (case pl_movement pl of None \<Rightarrow> - 1 | Some m \<Rightarrow> lastSequence m)"

definition mark_acked :: "player \<Rightarrow> player" where
  "mark_acked pl =
     (case pl_movement pl of None \<Rightarrow> pl
      | Some m \<Rightarrow> pl\<lparr>pl_movement := Some (m\<lparr>lastSequenceSent := lastSequence m\<rparr>)\<rparr>)"

definition position_packet :: "entity_state list \<Rightarrow> player \<Rightarrow> (packet \<times> user option) list" where
  "position_packet sts pl =
     (if sts \<noteq> [] \<or> sequence_pending pl
      then [(EntityPosition (ack_sequence pl) sts, Some (pl_user pl))] else [])"

definition stamped :: "frame \<Rightarrow> entity \<Rightarrow> entity" where
  "stamped fr en =
     en\<lparr>ent_state := (ent_state en)\<lparr>time := frame_stamp fr\<rparr>, hasSentLatestState := True\<rparr>"

text \<open>The packets handed to the session between two states, and how many of them are
  EntityPosition packets addressed to a user.\<close>

definition tick_packets :: "game \<Rightarrow> game \<Rightarrow> (packet \<times> user option) list" where
  "tick_packets g g' = drop (length (outbox g)) (outbox g')"

fun is_position :: "packet \<Rightarrow> bool" where
  "is_position (EntityPosition s sts) = True"
| "is_position pk = False"

definition positions_sent_to :: "user \<Rightarrow> (packet \<times> user option) list \<Rightarrow> nat" where
  "positions_sent_to u pks = length (filter (\<lambda>x. is_position (fst x) \<and> snd x = Some u) pks)"

text \<open>Two users, and an entity whose state changed since it was last sent.\<close>

definition alice :: user where
  "alice = \<lparr>sessionId = 10, wireId = 4\<rparr>"

definition bob :: user where
  "bob = \<lparr>sessionId = 11, wireId = 5\<rparr>"

definition moved :: "eref \<Rightarrow> game \<Rightarrow> game" where
  "moved e g = update_entity e (\<lambda>en. en\<lparr>hasSentLatestState := False\<rparr>) g"

text \<open>
  The movement controller of a player after it processed commands up to one sequence
  number, the last one confirmed to the client being another.
\<close>

definition sequence_state :: "int \<Rightarrow> int \<Rightarrow> pref \<Rightarrow> game \<Rightarrow> game" where
  "sequence_state processed confirmed p g =
     update_player p
       (\<lambda>q. q\<lparr>pl_movement :=
                map_option (\<lambda>m. m\<lparr>lastSequence := processed, lastSequenceSent := confirmed\<rparr>)
                  (pl_movement q)\<rparr>) g"

text \<open>
  Modelled from the spec: \<open>ServerPlayer.update\<close> is missing. Each tick the movement
  controller applies queued commands to the transform of its attached entity; an entity
  whose state changed is one whose latest state has not been sent.
\<close>

definition moving_player_update :: "frame \<Rightarrow> pref \<Rightarrow> game \<Rightarrow> game" where
  "moving_player_update fr p g =
     (case pl_entity (player_objs g p) of None \<Rightarrow> g | Some e \<Rightarrow> moved e g)"

text \<open>
  Names for the examples: a tick in which no packet arrives and nothing moves; one in
  which the poll delivers the disconnect of a user; one in which the players' entities
  move; five frames; the server after alice connected, and after bob followed.
  Modelled from the spec: \<open>session.poll\<close> is missing. Inbound events (connect,
  disconnect, block edit, movement commands) are delivered by the poll call and are
  processed synchronously within the tick that polls them.
\<close>

abbreviation idle_tick :: "frame \<Rightarrow> game \<Rightarrow> game" where
  "idle_tick fr g \<equiv> update idle_poll idle_player_update idle_state_update fr g"

abbreviation tick_with_disconnect :: "user \<Rightarrow> frame \<Rightarrow> game \<Rightarrow> game" where
  "tick_with_disconnect u fr g \<equiv>
     update (handleUserDisconnect u) idle_player_update idle_state_update fr g"

abbreviation tick_with_movement :: "frame \<Rightarrow> game \<Rightarrow> game" where
  "tick_with_movement fr g \<equiv> update idle_poll moving_player_update idle_state_update fr g"

abbreviation at_1500ms :: frame where
  "at_1500ms \<equiv> \<lparr>frame_time = Num (3 / 2)\<rparr>"

abbreviation at_2500ms :: frame where
  "at_2500ms \<equiv> \<lparr>frame_time = Num (5 / 2)\<rparr>"

abbreviation at_3000000s :: frame where
  "at_3000000s \<equiv> \<lparr>frame_time = Num 3000000\<rparr>"

abbreviation at_300ms :: frame where
  "at_300ms \<equiv> \<lparr>frame_time = round_double (3 / 10)\<rparr>"

abbreviation at_NaN :: frame where
  "at_NaN \<equiv> \<lparr>frame_time = NaN\<rparr>"

abbreviation alice_alone :: game where
  "alice_alone \<equiv> handleUserConnect alice (ServerGame_new {})"

abbreviation alice_and_bob :: game where
  "alice_and_bob \<equiv> handleUserConnect bob (handleUserConnect alice (ServerGame_new {}))"

section \<open>Basic facts\<close>

lemmas collab_defs = log_write_def session_send_def ServerPlayer_new_def addPlayer_def
  removePlayer_def chat_join_def ChunkView_new_def addObserver_def ChunkView_initialize_def
  ChunkView_setBlock_def dispose_view_def dispose_player_def addChunkView_def
  removeChunkView_def addEntity_def removeEntity_def USER_CONTROLLED_def Entity_new_def
  ServerMovement_new_def attach_def queueCommands_def update_player_def update_entity_def

lemma send_existing_outbox:
  "outbox (send_existing_entities u rs g) =
     outbox g @ map (\<lambda>r. (entity_create_data (player_objs g) (entity_objs g r), Some u)) rs"
  by (induction rs arbitrary: g) (simp_all add: session_send_def)

lemma send_existing_fields:
  "player_objs (send_existing_entities u rs g) = player_objs g"
  "entity_objs (send_existing_entities u rs g) = entity_objs g"
  "next_ref (send_existing_entities u rs g) = next_ref g"
  "nextEntityId (send_existing_entities u rs g) = nextEntityId g"
  "entities (send_existing_entities u rs g) = entities g"
  "user_data (send_existing_entities u rs g) = user_data g"
  "players (send_existing_entities u rs g) = players g"
  by (induction rs arbitrary: g) (simp_all add: session_send_def)

lemma create_data_fresh_player:
  assumes "owners_allocated g" and "r \<in> set (entities g)"
  shows "entity_create_data ((player_objs g)(next_ref g := pl)) (entity_objs g r)
       = entity_create_data (player_objs g) (entity_objs g r)"
  using assms
  by (auto simp: owners_allocated_def entity_create_data_def split: option.splits)

text \<open>The state after the first user connected to a fresh server.\<close>

lemma alice_connected:
  "players (handleUserConnect alice (ServerGame_new registered)) = [0]"
  "entities (handleUserConnect alice (ServerGame_new registered)) = [2]"
  "nextEntityId (handleUserConnect alice (ServerGame_new registered)) = 1"
  "next_ref (handleUserConnect alice (ServerGame_new registered)) = 3"
  "user_data (handleUserConnect alice (ServerGame_new registered)) alice = Some 0"
  "blockSet (handleUserConnect alice (ServerGame_new registered)) = registered"
  "blocks (handleUserConnect alice (ServerGame_new registered)) c = 0"
  "player_objs (handleUserConnect alice (ServerGame_new registered)) 0 =
     \<lparr>pl_user = alice, pl_entity = Some 2, pl_view = Some 1,
      pl_movement = Some \<lparr>mv_view = 1, mv_target = Some 2, lastSequence = 0,
                          lastSequenceSent = 0, mv_queue = []\<rparr>,
      pl_disposed = False\<rparr>"
  "entity_objs (handleUserConnect alice (ServerGame_new registered)) 2 =
     \<lparr>ent_id = 0, ent_flags = USER_CONTROLLED, ent_player = Some 0,
      ent_state = \<lparr>position = [0, 80, 0], rotation = [0, 0, 0, 1], velocity = [0, 0, 0], time = 0\<rparr>,
      hasSentLatestState = False\<rparr>"
  "outbox (handleUserConnect alice (ServerGame_new registered)) =
     [(EntityCreate 0 USER_CONTROLLED 4 [0, 80, 0] [0, 0, 0, 1] [0, 0, 0], None),
      (ReadyPlayer, Some alice)]"
  by (simp_all add: handleUserConnect_def ServerGame_new_def Let_def entity_create_data_def
      collab_defs alice_def)

text \<open>The state after a connect, in general.\<close>

lemma handleUserConnect_fields:
  "players (handleUserConnect u g) = players g @ [next_ref g]"
  "entities (handleUserConnect u g) = entities g @ [next_ref g + 2]"
  "next_ref (handleUserConnect u g) = next_ref g + 3"
  "user_data (handleUserConnect u g) = (user_data g)(u := Some (next_ref g))"
  "player_objs (handleUserConnect u g) =
     (player_objs g)(next_ref g :=
        \<lparr>pl_user = u, pl_entity = Some (next_ref g + 2), pl_view = Some (next_ref g + 1),
         pl_movement = Some \<lparr>mv_view = next_ref g + 1, mv_target = Some (next_ref g + 2),
                             lastSequence = 0, lastSequenceSent = 0, mv_queue = []\<rparr>,
         pl_disposed = False\<rparr>)"
  "entity_objs (handleUserConnect u g) =
     (entity_objs g)(next_ref g + 2 :=
        \<lparr>ent_id = nextEntityId g, ent_flags = USER_CONTROLLED, ent_player = Some (next_ref g),
         ent_state = \<lparr>position = [0, 80, 0], rotation = [0, 0, 0, 1], velocity = [0, 0, 0],
                      time = 0\<rparr>,
         hasSentLatestState = False\<rparr>)"
  by (simp_all add: handleUserConnect_def Let_def send_existing_fields collab_defs)

lemma users_differ:
  "alice \<noteq> bob" "bob \<noteq> alice"
  by (simp_all add: alice_def bob_def)

text \<open>The state after a second user connected.\<close>

lemma bob_connected:
  "players (handleUserConnect bob (handleUserConnect alice (ServerGame_new registered))) = [0, 3]"
  "entities (handleUserConnect bob (handleUserConnect alice (ServerGame_new registered))) = [2, 5]"
  "user_data (handleUserConnect bob (handleUserConnect alice (ServerGame_new registered))) alice =
     Some 0"
  "player_objs (handleUserConnect bob (handleUserConnect alice (ServerGame_new registered))) 0 =
     player_objs (handleUserConnect alice (ServerGame_new registered)) 0"
  "player_objs (handleUserConnect bob (handleUserConnect alice (ServerGame_new registered))) 3 =
     \<lparr>pl_user = bob, pl_entity = Some 5, pl_view = Some 4,
      pl_movement = Some \<lparr>mv_view = 4, mv_target = Some 5, lastSequence = 0,
                          lastSequenceSent = 0, mv_queue = []\<rparr>,
      pl_disposed = False\<rparr>"
  "entity_objs (handleUserConnect bob (handleUserConnect alice (ServerGame_new registered))) 2 =
     entity_objs (handleUserConnect alice (ServerGame_new registered)) 2"
  "entity_objs (handleUserConnect bob (handleUserConnect alice (ServerGame_new registered))) 5 =
     \<lparr>ent_id = 1, ent_flags = USER_CONTROLLED, ent_player = Some 3,
      ent_state = \<lparr>position = [0, 80, 0], rotation = [0, 0, 0, 1], velocity = [0, 0, 0],
                   time = 0\<rparr>,
      hasSentLatestState = False\<rparr>"
  by (simp_all add: handleUserConnect_fields[where u = bob] alice_connected users_differ)

section \<open>Connecting\<close>

text \<open>
  C7. \<open>handleUserConnect(user)\<close> hands to the session, after what was sent before and
  in this order: one EntityCreate per entity of the table, each addressed to the
  connecting user only and carrying the owner's wire id, or \<open>0xFF\<close> (255) for an entity
  without a player; then one EntityCreate for the new entity, broadcast (no target), with
  the next sequential id, the USER_CONTROLLED flag, the connecting user's wire id and the
  spawn position; then a ReadyPlayer addressed to the connecting user only. The new
  entity is the last of the table and the id counter has advanced by one.
\<close>

theorem handleUserConnect_packets:
  assumes "owners_allocated g"
  shows "outbox (handleUserConnect u g) =
           outbox g
           @ map (\<lambda>r. (entity_create_data (player_objs g) (entity_objs g r), Some u)) (entities g)
           @ [(EntityCreate (nextEntityId g) USER_CONTROLLED (wireId u)
                 [0, 80, 0] [0, 0, 0, 1] [0, 0, 0], None),
              (ReadyPlayer, Some u)]
         \<and> entities (handleUserConnect u g) = entities g @ [next_ref g + 2]
         \<and> entity_create_data objs (en\<lparr>ent_player := None\<rparr>) =
            EntityCreate (ent_id en) (ent_flags en) 255
              (position (ent_state en)) (rotation (ent_state en)) (velocity (ent_state en))
         \<and> nextEntityId (handleUserConnect u g) = nextEntityId g + 1"
proof -
  have "outbox (handleUserConnect u g) =
           outbox g
           @ map (\<lambda>r. (entity_create_data (player_objs g) (entity_objs g r), Some u)) (entities g)
           @ [(EntityCreate (nextEntityId g) USER_CONTROLLED (wireId u)
                 [0, 80, 0] [0, 0, 0, 1] [0, 0, 0], None),
              (ReadyPlayer, Some u)]"
    using create_data_fresh_player[OF assms]
    apply (simp add: handleUserConnect_def Let_def send_existing_outbox send_existing_fields
        collab_defs)
    apply (simp add: entity_create_data_def)
    done
  moreover have "entities (handleUserConnect u g) = entities g @ [next_ref g + 2]"
    by (simp add: handleUserConnect_def Let_def send_existing_fields collab_defs)
  moreover have "nextEntityId (handleUserConnect u g) = nextEntityId g + 1"
    by (simp add: handleUserConnect_def Let_def send_existing_fields collab_defs)
  ultimately show ?thesis
    by (simp add: entity_create_data_def)
qed

text \<open>
  The scenario: alice connects to a fresh server and gets entity 0; bob connects next,
  receives the catch-up for entity 0 before his own ReadyPlayer, and the EntityCreate
  for his entity 1 is a broadcast.
\<close>

theorem handleUserConnect_packets_witness:
  "owners_allocated (handleUserConnect alice (ServerGame_new {})) \<and>
   outbox (handleUserConnect bob (handleUserConnect alice (ServerGame_new {}))) =
     [(EntityCreate 0 USER_CONTROLLED (wireId alice) [0, 80, 0] [0, 0, 0, 1] [0, 0, 0], None),
      (ReadyPlayer, Some alice),
      (EntityCreate 0 USER_CONTROLLED (wireId alice) [0, 80, 0] [0, 0, 0, 1] [0, 0, 0], Some bob),
      (EntityCreate 1 USER_CONTROLLED (wireId bob) [0, 80, 0] [0, 0, 0, 1] [0, 0, 0], None),
      (ReadyPlayer, Some bob)]"
proof -
  let ?g = "handleUserConnect alice (ServerGame_new {})"
  have a: "owners_allocated ?g"
    by (simp add: owners_allocated_def alice_connected)
  have w: "wireId alice = 4"
    by (simp add: alice_def)
  show ?thesis
    using a handleUserConnect_packets[OF a, where u = bob and objs = "player_objs ?g"
        and en = "entity_objs ?g 2"]
    by (simp add: alice_connected entity_create_data_def w)
qed

section \<open>Entity ids\<close>

lemma connect_assigns_next:
  "owned_entity_id (handleUserConnect u g) u = Some (nextEntityId g)"
  by (simp add: owned_entity_id_def handleUserConnect_def Let_def send_existing_fields collab_defs)

lemma connect_increments:
  "nextEntityId (handleUserConnect u g) = Suc (nextEntityId g)"
  by (simp add: handleUserConnect_def Let_def send_existing_fields collab_defs)

lemma disconnect_keeps_counter:
  "nextEntityId (handleUserDisconnect u g) = nextEntityId g"
  by (simp add: handleUserDisconnect_def Let_def collab_defs split: option.splits)

lemma setBlock_keeps_counter:
  "nextEntityId (snd (setBlock u x y z b g)) = nextEntityId g"
  by (simp add: setBlock_def Let_def collab_defs split: option.splits)

lemma send_positions_keeps_counter:
  "nextEntityId (send_positions sts ps g) = nextEntityId g"
  by (induction ps arbitrary: g) (simp_all add: Let_def collab_defs split: option.splits)

lemma idle_simulate:
  "update_simulate idle_poll idle_player_update idle_state_update fr g = g"
proof -
  have "fold (idle_player_update fr) ps g = g" for ps
    by (induction ps) (simp_all add: idle_player_update_def)
  then show ?thesis
    by (simp add: update_simulate_def idle_poll_def idle_state_update_def Let_def)
qed

lemma idle_update_keeps_counter:
  "nextEntityId (update idle_poll idle_player_update idle_state_update fr g) = nextEntityId g"
  by (simp add: update_def idle_simulate update_broadcast_def Let_def send_positions_keeps_counter)

lemma assigned_ids_from:
  "assigned_ids evs g =
     map Some [nextEntityId g ..< nextEntityId g + length (filter is_connect evs)]"
proof (induction evs g rule: assigned_ids.induct)
  case (1 g)
  show ?case by simp
next
  case (2 u evs g)
  have head: "[n ..< n + Suc k] = n # [Suc n ..< Suc n + k]" for n k :: nat
    by (simp add: upt_conv_Cons)
  have "assigned_ids (Connect u # evs) g =
          Some (nextEntityId g) # assigned_ids evs (handleUserConnect u g)"
    by (simp add: Let_def connect_assigns_next)
  also have "assigned_ids evs (handleUserConnect u g) =
          map Some [Suc (nextEntityId g) ..< Suc (nextEntityId g) + length (filter is_connect evs)]"
    using 2 by (simp only: connect_increments)
  finally show ?case
    using head[of "nextEntityId g" "length (filter is_connect evs)"] by simp
next
  case (3 u evs g)
  then show ?case by (simp add: disconnect_keeps_counter)
next
  case (4 u x y z b evs g)
  then show ?case by (simp add: setBlock_keeps_counter)
next
  case (5 fr evs g)
  then show ?case by (simp add: idle_update_keeps_counter)
qed

text \<open>
  C4. Whatever connects, disconnects, block edits and ticks a server goes through after
  its construction (where \<open>nextEntityId_\<close> is 0), the ids of the entities it creates
  are 0, 1, 2, ... in the order of the connects: the k-th entity created has id k - 1,
  so the ids are strictly increasing and none is assigned twice, also after the entity
  that held one was deleted.
\<close>

theorem entity_ids_sequential:
  "assigned_ids evs (ServerGame_new registered) =
     map Some [0 ..< length (filter is_connect evs)]"
  using assigned_ids_from[of evs "ServerGame_new registered"]
  by (simp add: ServerGame_new_def)

section \<open>Disconnecting\<close>

lemma handleUserDisconnect_no_player:
  assumes "user_data g u = None"
  shows "handleUserDisconnect u g = log_write (ClientDisconnected u) g"
  using assms by (simp add: handleUserDisconnect_def Let_def log_write_def)

lemma handleUserDisconnect_first:
  assumes "user_data g u = Some p" and "pl_entity (player_objs g p) = Some e"
  shows "e \<notin> set (entities (handleUserDisconnect u g))"
    and "outbox (handleUserDisconnect u g) =
           outbox g @ [(EntityDelete (ent_id (entity_objs g e)), None)]"
  using assms
  by (simp_all add: handleUserDisconnect_def Let_def collab_defs split: option.splits)

lemma handleUserDisconnect_keeps_links:
  assumes "user_data g u = Some p"
  shows "user_data (handleUserDisconnect u g) = user_data g"
    and "pl_entity (player_objs (handleUserDisconnect u g) p) = pl_entity (player_objs g p)"
    and "entity_objs (handleUserDisconnect u g) = entity_objs g"
  using assms
  by (simp_all add: handleUserDisconnect_def Let_def collab_defs split: option.splits)

text \<open>
  C1. The first \<open>handleUserDisconnect\<close> of a connected user removes the owned entity
  from the table and broadcasts one EntityDelete for its id
  (\<open>handleUserDisconnect_first\<close>). It clears \<open>player.view\<close> but neither
  \<open>user.data\<close> nor \<open>player.entity\<close> (\<open>handleUserDisconnect_keeps_links\<close>), so
  a second call for the same user finds the player and its entity again and broadcasts
  a second EntityDelete for the same id: after alice connects to a fresh server and is
  disconnected twice, the session has been handed two EntityDelete packets for entity 0.
\<close>

theorem handleUserDisconnect_twice:
  "outbox (handleUserDisconnect alice (handleUserDisconnect alice
             (handleUserConnect alice (ServerGame_new {})))) =
     [(EntityCreate 0 USER_CONTROLLED 4 [0, 80, 0] [0, 0, 0, 1] [0, 0, 0], None),
      (ReadyPlayer, Some alice),
      (EntityDelete 0, None),
      (EntityDelete 0, None)]"
proof -
  let ?g = "handleUserConnect alice (ServerGame_new {})"
  have p: "user_data ?g alice = Some 0" and e: "pl_entity (player_objs ?g 0) = Some 2"
    by (simp_all add: alice_connected)
  have p': "user_data (handleUserDisconnect alice ?g) alice = Some 0"
    and e': "pl_entity (player_objs (handleUserDisconnect alice ?g) 0) = Some 2"
    by (simp_all add: handleUserDisconnect_keeps_links[OF p] alice_connected)
  show ?thesis
    by (simp add: handleUserDisconnect_first(2)[OF p' e'] handleUserDisconnect_first(2)[OF p e]
        handleUserDisconnect_keeps_links(3)[OF p] alice_connected)
qed

section \<open>Editing blocks\<close>

lemma setBlock_fields:
  "user_data (snd (setBlock u x y z b g)) = user_data g"
  "player_objs (snd (setBlock u x y z b g)) = player_objs g"
  "blockSet (snd (setBlock u x y z b g)) = blockSet g"
  by (simp_all add: setBlock_def Let_def collab_defs split: option.splits)

lemma setBlock_requester_view:
  "requester_view (snd (setBlock u x y z b g)) u' = requester_view g u'"
  by (simp add: requester_view_def setBlock_fields split: option.splits)

text \<open>
  C3. \<open>setBlock\<close> returns false exactly when the user has no player or the player has
  no chunk view, or \<open>blockData\<close> is non-zero and \<open>blockData >> 8\<close> is not a
  registered block type. Whenever it returns false, nothing was handed to the session
  and every cell of the map is as before. With a player and a view, a zero
  \<open>blockData\<close> is accepted.
\<close>

theorem setBlock_false_iff:
  "(\<not> fst (setBlock u x y z blockData g)) =
     (requester_view g u = None \<or> (blockData \<noteq> 0 \<and> js_shr blockData 8 \<notin> blockSet g))
   \<and> (\<not> fst (setBlock u x y z blockData g) \<longrightarrow>
        outbox (snd (setBlock u x y z blockData g)) = outbox g \<and>
        blocks (snd (setBlock u x y z blockData g)) = blocks g)
   \<and> (requester_view g u \<noteq> None \<longrightarrow> fst (setBlock u x y z 0 g))"
  by (simp add: setBlock_def requester_view_def Let_def collab_defs split: option.splits)

text \<open>
  On a server that registers block type 1 only, alice's request to put a block of type 2
  at (1, 2, 3) is refused, sends nothing and leaves the cell empty; her request to empty
  the cell is accepted.
\<close>

theorem setBlock_false_iff_witness:
  "\<not> fst (setBlock alice 1 2 3 513 (handleUserConnect alice (ServerGame_new {1})))
   \<and> outbox (snd (setBlock alice 1 2 3 513 (handleUserConnect alice (ServerGame_new {1})))) =
       outbox (handleUserConnect alice (ServerGame_new {1}))
   \<and> blocks (snd (setBlock alice 1 2 3 513 (handleUserConnect alice (ServerGame_new {1}))))
       (1, 2, 3) = 0
   \<and> fst (setBlock alice 1 2 3 0 (handleUserConnect alice (ServerGame_new {1})))"
proof -
  let ?g = "handleUserConnect alice (ServerGame_new {1})"
  have v: "requester_view ?g alice = Some 1"
    by (simp add: requester_view_def alice_connected)
  have t: "js_shr 513 8 = 2"
    by (simp add: js_shr_def wrap_int32_def)
  show ?thesis
    using setBlock_false_iff[of alice 1 2 3 513 ?g]
    by (simp add: v t alice_connected)
qed

text \<open>
  C6. For a user with a player and a view and a valid \<open>blockData\<close> (zero, or of a
  registered type), \<open>setBlock\<close> returns true and writes the cell; it hands one SetBlock
  broadcast to the session exactly when the cell held another value before, and
  nothing when the cell already held \<open>blockData\<close>.
\<close>

theorem setBlock_broadcast_iff_changed:
  assumes "requester_view g u = Some v"
    and "blockData = 0 \<or> js_shr blockData 8 \<in> blockSet g"
  shows "fst (setBlock u x y z blockData g)
       \<and> outbox (snd (setBlock u x y z blockData g)) =
           (if blocks g (x, y, z) = blockData then outbox g
            else outbox g @ [(SetBlock x y z blockData, None)])
       \<and> blocks (snd (setBlock u x y z blockData g)) = (blocks g)((x, y, z) := blockData)"
  using assms
  by (auto simp add: setBlock_def requester_view_def Let_def collab_defs split: option.splits)

text \<open>
  Alice puts a block of the registered type 1 at (1, 2, 3): the edit is broadcast.
  Repeating the same request is accepted and sends nothing.
\<close>

theorem setBlock_broadcast_iff_changed_witness:
  "requester_view (handleUserConnect alice (ServerGame_new {1})) alice = Some 1
   \<and> js_shr 256 8 \<in> blockSet (handleUserConnect alice (ServerGame_new {1}))
   \<and> fst (setBlock alice 1 2 3 256 (handleUserConnect alice (ServerGame_new {1})))
   \<and> outbox (snd (setBlock alice 1 2 3 256 (handleUserConnect alice (ServerGame_new {1})))) =
       outbox (handleUserConnect alice (ServerGame_new {1})) @ [(SetBlock 1 2 3 256, None)]
   \<and> fst (setBlock alice 1 2 3 256
            (snd (setBlock alice 1 2 3 256 (handleUserConnect alice (ServerGame_new {1})))))
   \<and> outbox (snd (setBlock alice 1 2 3 256
            (snd (setBlock alice 1 2 3 256 (handleUserConnect alice (ServerGame_new {1})))))) =
       outbox (snd (setBlock alice 1 2 3 256 (handleUserConnect alice (ServerGame_new {1}))))"
proof -
  let ?g = "handleUserConnect alice (ServerGame_new {1})"
  let ?g' = "snd (setBlock alice 1 2 3 256 ?g)"
  have v: "requester_view ?g alice = Some 1"
    by (simp add: requester_view_def alice_connected)
  have t: "js_shr 256 8 = 1"
    by (simp add: js_shr_def wrap_int32_def)
  have ok: "256 = 0 \<or> js_shr 256 8 \<in> blockSet ?g"
    by (simp add: t alice_connected)
  have v': "requester_view ?g' alice = Some 1"
    using v by (simp add: setBlock_requester_view)
  have ok': "256 = 0 \<or> js_shr 256 8 \<in> blockSet ?g'"
    using ok by (simp add: setBlock_fields)
  note first = setBlock_broadcast_iff_changed[OF v ok, of 1 2 3]
  note again = setBlock_broadcast_iff_changed[OF v' ok', of 1 2 3]
  have cell: "blocks ?g (1, 2, 3) = 0" "blocks ?g' (1, 2, 3) = 256"
    using first by (simp_all add: alice_connected)
  show ?thesis
    using first again by (simp add: v t cell alice_connected)
qed

section \<open>Moving\<close>

text \<open>
  For a user whose \<open>data\<close> slot holds a player, \<open>movePlayer\<close> returns true; if the
  player has a movement controller the commands are handed to its \<open>queueCommands\<close>,
  which appends them to the queue, and otherwise nothing changes.
\<close>

theorem movePlayer_with_player:
  assumes "user_data g u = Some p"
  shows "movePlayer u commands g =
           Inr (True,
             (case pl_movement (player_objs g p) of
                None \<Rightarrow> g
              | Some m \<Rightarrow>
                  update_player p (\<lambda>q. q\<lparr>pl_movement := Some (queueCommands commands m)\<rparr>) g))
       \<and> mv_queue (queueCommands commands m') = mv_queue m' @ commands"
  using assms
  by (simp add: movePlayer_def queueCommands_def split: option.splits)

text \<open>Alice, connected, queues the commands with sequence numbers 5, 6 and 7.\<close>

theorem movePlayer_with_player_witness:
  "user_data (handleUserConnect alice (ServerGame_new {})) alice = Some 0
   \<and> (\<exists>g'. movePlayer alice [MoveCommand 5 0, MoveCommand 6 0, MoveCommand 7 0]
              (handleUserConnect alice (ServerGame_new {})) = Inr (True, g')
          \<and> map_option mv_queue (pl_movement (player_objs g' 0)) =
              Some [MoveCommand 5 0, MoveCommand 6 0, MoveCommand 7 0])"
proof -
  let ?g = "handleUserConnect alice (ServerGame_new {})"
  have p: "user_data ?g alice = Some 0"
    by (simp add: alice_connected)
  show ?thesis
    using movePlayer_with_player[OF p,
        where commands = "[MoveCommand 5 0, MoveCommand 6 0, MoveCommand 7 0]"
          and m' = "ServerMovement_new 1"]
    by (simp add: p alice_connected update_player_def queueCommands_def)
qed


section \<open>The tick\<close>

lemma wrap_int32_id:
  assumes "- (2 ^ 31) \<le> n" and "n < 2 ^ 31"
  shows "wrap_int32 n = n"
proof (cases "0 \<le> n")
  case True
  with assms have "n mod 2 ^ 32 = n" by simp
  with assms show ?thesis by (simp add: wrap_int32_def Let_def)
next
  case False
  from assms have "0 \<le> n + 2 ^ 32" and "n + 2 ^ 32 < 2 ^ 32" using False by simp_all
  then have "(n + 2 ^ 32) mod 2 ^ 32 = n + 2 ^ 32" by (rule mod_pos_pos_trivial)
  moreover have "(n + 2 ^ 32) mod 2 ^ 32 = n mod 2 ^ 32" by (rule mod_add_self2)
  ultimately have "n mod 2 ^ 32 = n + 2 ^ 32" by simp
  with assms False show ?thesis by (simp add: wrap_int32_def Let_def)
qed

lemma scan_objs:
  "fst (scan_entities fr rs objs acc) r =
     (if r \<in> set rs \<and> \<not> hasSentLatestState (objs r) then stamped fr (objs r) else objs r)"
  by (induction rs arbitrary: objs acc) (auto simp: Let_def stamped_def)

lemma scan_states_empty:
  "snd (scan_entities fr rs objs acc) = [] \<longleftrightarrow>
     acc = [] \<and> (\<forall>r \<in> set rs. hasSentLatestState (objs r))"
  by (induction rs arbitrary: objs acc) (auto simp: Let_def)

lemma scan_states_time:
  "st \<in> set (snd (scan_entities fr rs objs acc)) \<Longrightarrow> st \<in> set acc \<or> time st = frame_stamp fr"
proof (induction rs arbitrary: objs acc)
  case Nil
  then show ?case by simp
next
  case (Cons r rs)
  show ?case
  proof (cases "hasSentLatestState (objs r)")
    case True
    with Cons show ?thesis by (simp add: Let_def)
  next
    case False
    with Cons.prems have
      "st \<in> set (snd (scan_entities fr rs (objs(r := stamped fr (objs r)))
          (acc @ [(ent_state (objs r))\<lparr>time := frame_stamp fr\<rparr>])))"
      by (simp add: Let_def stamped_def)
    from Cons.IH[OF this] show ?thesis by auto
  qed
qed

lemma scan_states_distinct:
  "distinct rs \<Longrightarrow>
   snd (scan_entities fr rs objs acc) =
     acc @ map (\<lambda>r. (ent_state (objs r))\<lparr>time := frame_stamp fr\<rparr>)
             (filter (\<lambda>r. \<not> hasSentLatestState (objs r)) rs)"
proof (induction rs arbitrary: objs acc)
  case Nil
  show ?case by simp
next
  case (Cons r rs)
  from Cons.prems have fresh: "r \<notin> set rs" and rest: "distinct rs" by simp_all
  have f: "filter (\<lambda>x. \<not> hasSentLatestState ((objs(r := e)) x)) rs =
           filter (\<lambda>x. \<not> hasSentLatestState (objs x)) rs" for e
    using fresh by (intro filter_cong) auto
  have m: "map (\<lambda>x. (ent_state ((objs(r := e)) x))\<lparr>time := frame_stamp fr\<rparr>) xs =
           map (\<lambda>x. (ent_state (objs x))\<lparr>time := frame_stamp fr\<rparr>) xs" if "r \<notin> set xs" for e xs
    using that by (intro map_cong) auto
  have sub: "r \<notin> set (filter (\<lambda>x. \<not> hasSentLatestState (objs x)) rs)"
    using fresh by simp
  show ?case
  proof (cases "hasSentLatestState (objs r)")
    case True
    then show ?thesis by (simp add: Let_def Cons.IH[OF rest])
  next
    case False
    then show ?thesis
      by (simp only: scan_entities.simps Let_def if_True not_False_eq_True Cons.IH[OF rest] f m[OF sub])
         simp
  qed
qed

lemma mark_acked_simps:
  "pl_user (mark_acked pl) = pl_user pl"
  "ack_sequence (mark_acked pl) = ack_sequence pl"
  "\<not> sequence_pending (mark_acked pl)"
  "mark_acked (mark_acked pl) = mark_acked pl"
  by (simp_all add: mark_acked_def ack_sequence_def sequence_pending_def split: option.splits)

lemma send_positions_step:
  "send_positions sts (p # ps) g =
     send_positions sts ps
       (g\<lparr>player_objs := (player_objs g)(p := mark_acked (player_objs g p)),
          outbox := outbox g @ position_packet sts (player_objs g p)\<rparr>)"
  by (cases "pl_movement (player_objs g p)")
     (auto simp: Let_def mark_acked_def position_packet_def sequence_pending_def ack_sequence_def
        collab_defs)

lemma send_positions_fields:
  "entities (send_positions sts ps g) = entities g"
  "entity_objs (send_positions sts ps g) = entity_objs g"
  "players (send_positions sts ps g) = players g"
  by (induction ps arbitrary: g) (simp_all add: send_positions_step del: send_positions.simps(2))

lemma send_positions_player:
  "player_objs (send_positions sts ps g) p =
     (if p \<in> set ps then mark_acked (player_objs g p) else player_objs g p)"
  by (induction ps arbitrary: g)
     (auto simp: send_positions_step mark_acked_simps simp del: send_positions.simps(2))

lemma send_positions_outbox:
  "distinct ps \<Longrightarrow>
   outbox (send_positions sts ps g) =
     outbox g @ concat (map (\<lambda>p. position_packet sts (player_objs g p)) ps)"
proof (induction ps arbitrary: g)
  case Nil
  show ?case by simp
next
  case (Cons p ps)
  from Cons.prems have fresh: "p \<notin> set ps" and rest: "distinct ps" by simp_all
  have m: "map (\<lambda>x. position_packet sts (if x = p then e else player_objs g x)) ps =
           map (\<lambda>x. position_packet sts (player_objs g x)) ps" for e
    using fresh by (intro map_cong) auto
  show ?case
    by (simp add: send_positions_step Cons.IH[OF rest] m del: send_positions.simps(2))
qed

lemma send_positions_sent:
  "\<exists>pks. outbox (send_positions sts ps g) = outbox g @ pks \<and>
     (\<forall>x \<in> set pks. \<exists>p \<in> set ps.
        x = (EntityPosition (ack_sequence (player_objs g p)) sts, Some (pl_user (player_objs g p))))"
proof (induction ps arbitrary: g)
  case Nil
  show ?case by simp
next
  case (Cons p ps)
  let ?g = "g\<lparr>player_objs := (player_objs g)(p := mark_acked (player_objs g p)),
          outbox := outbox g @ position_packet sts (player_objs g p)\<rparr>"
  from Cons.IH[of ?g] obtain pks where
    ob: "outbox (send_positions sts ps ?g) = outbox ?g @ pks" and
    each: "\<forall>x \<in> set pks. \<exists>q \<in> set ps.
        x = (EntityPosition (ack_sequence (player_objs ?g q)) sts, Some (pl_user (player_objs ?g q)))"
    by blast
  have same: "ack_sequence (player_objs ?g q) = ack_sequence (player_objs g q)"
       "pl_user (player_objs ?g q) = pl_user (player_objs g q)" for q
    by (simp_all add: mark_acked_simps)
  have "outbox (send_positions sts (p # ps) g) = outbox g @ (position_packet sts (player_objs g p) @ pks)"
    by (simp add: send_positions_step ob del: send_positions.simps(2))
  moreover have "\<forall>x \<in> set (position_packet sts (player_objs g p) @ pks). \<exists>q \<in> set (p # ps).
        x = (EntityPosition (ack_sequence (player_objs g q)) sts, Some (pl_user (player_objs g q)))"
    using each unfolding same by (auto simp: position_packet_def)
  ultimately show ?case by blast
qed

lemma count_in_concat:
  assumes "distinct (map f ps)" and "p \<in> set ps"
    and "\<And>q. set (h q) \<subseteq> {(EntityPosition (a q) sts, Some (f q))}"
  shows "positions_sent_to (f p) (concat (map h ps)) = length (h p)"
  using assms(1,2)
proof (induction ps)
  case Nil
  then show ?case by simp
next
  case (Cons q ps)
  have all: "filter (\<lambda>x. is_position (fst x) \<and> snd x = Some (f r)) (h r) = h r" for r
    using assms(3)[of r] by (auto simp: filter_id_conv)
  have none: "f r \<noteq> f s \<Longrightarrow> filter (\<lambda>x. is_position (fst x) \<and> snd x = Some (f s)) (h r) = []" for r s
    using assms(3)[of r] by (auto simp: filter_empty_conv)
  have absent: "positions_sent_to (f s) (concat (map h rs)) = 0" if "f s \<notin> f ` set rs" for s rs
    using that by (induction rs) (auto simp: positions_sent_to_def none)
  show ?case
  proof (cases "p = q")
    case True
    with Cons.prems have "f p \<notin> f ` set ps" by auto
    from absent[OF this] show ?thesis
      using True by (simp add: positions_sent_to_def all)
  next
    case False
    with Cons.prems have "p \<in> set ps" "f q \<noteq> f p" "distinct (map f ps)" by auto
    with Cons.IH show ?thesis
      by (simp add: positions_sent_to_def none)
  qed
qed

lemma delta_set_empty:
  "delta_set fr g = [] \<longleftrightarrow> (\<forall>r \<in> set (entities g). hasSentLatestState (entity_objs g r))"
  by (simp add: delta_set_def scan_states_empty)

lemma delta_set_time:
  "st \<in> set (delta_set fr g) \<Longrightarrow> time st = frame_stamp fr"
  using scan_states_time[of st fr "entities g" "entity_objs g" "[]"]
  by (simp add: delta_set_def)

lemma delta_set_distinct:
  "distinct (entities g) \<Longrightarrow>
   delta_set fr g =
     map (\<lambda>r. (ent_state (entity_objs g r))\<lparr>time := frame_stamp fr\<rparr>)
       (filter (\<lambda>r. \<not> hasSentLatestState (entity_objs g r)) (entities g))"
  by (simp add: delta_set_def scan_states_distinct)

lemma update_broadcast_fields:
  "players (update_broadcast fr g) = players g"
  "entities (update_broadcast fr g) = entities g"
  "entity_objs (update_broadcast fr g) r =
     (if r \<in> set (entities g) \<and> \<not> hasSentLatestState (entity_objs g r)
      then stamped fr (entity_objs g r) else entity_objs g r)"
  "player_objs (update_broadcast fr g) p =
     (if p \<in> set (players g) then mark_acked (player_objs g p) else player_objs g p)"
  by (simp_all add: update_broadcast_def Let_def send_positions_fields send_positions_player scan_objs)

lemma update_broadcast_outbox:
  "distinct (players g) \<Longrightarrow>
   outbox (update_broadcast fr g) =
     outbox g @ concat (map (\<lambda>p. position_packet (delta_set fr g) (player_objs g p)) (players g))"
  by (simp add: update_broadcast_def Let_def send_positions_outbox delta_set_def)

lemma update_broadcast_sent:
  "\<exists>pks. outbox (update_broadcast fr g) = outbox g @ pks \<and>
     (\<forall>x \<in> set pks. \<exists>p \<in> set (players g).
        x = (EntityPosition (ack_sequence (player_objs g p)) (delta_set fr g),
             Some (pl_user (player_objs g p))))"
  using send_positions_sent[of "delta_set fr g" "players g"
      "g\<lparr>entity_objs := fst (scan_entities fr (entities g) (entity_objs g) [])\<rparr>"]
  by (simp add: update_broadcast_def Let_def delta_set_def)

lemma send_positions_more_fields:
  "user_data (send_positions sts ps g) = user_data g"
  "chunkViews (send_positions sts ps g) = chunkViews g"
  "view_objs (send_positions sts ps g) = view_objs g"
  by (induction ps arbitrary: g) (simp_all add: send_positions_step del: send_positions.simps(2))

lemma update_broadcast_more_fields:
  "user_data (update_broadcast fr g) = user_data g"
  "chunkViews (update_broadcast fr g) = chunkViews g"
  "view_objs (update_broadcast fr g) = view_objs g"
  by (simp_all add: update_broadcast_def Let_def send_positions_more_fields)

lemma mark_acked_links:
  "pl_entity (mark_acked pl) = pl_entity pl"
  "pl_view (mark_acked pl) = pl_view pl"
  by (simp_all add: mark_acked_def split: option.splits)

lemma moved_fields:
  "players (moved e g) = players g"
  "entities (moved e g) = entities g"
  "outbox (moved e g) = outbox g"
  "user_data (moved e g) = user_data g"
  "player_objs (moved e g) = player_objs g"
  "chunkViews (moved e g) = chunkViews g"
  "view_objs (moved e g) = view_objs g"
  "entity_objs (moved e g) =
     (entity_objs g)(e := (entity_objs g e)\<lparr>hasSentLatestState := False\<rparr>)"
  by (simp_all add: moved_def update_entity_def)

lemma handleUserDisconnect_fields:
  assumes "user_data g u = Some p" and "pl_entity (player_objs g p) = Some e"
    and "pl_view (player_objs g p) = Some v"
  shows "entities (handleUserDisconnect u g) = removeAll e (entities g)"
    and "entity_objs (handleUserDisconnect u g) = entity_objs g"
    and "players (handleUserDisconnect u g) =
           filter (\<lambda>q. pl_user (player_objs g q) \<noteq> u) (players g)"
    and "player_objs (handleUserDisconnect u g) =
           (player_objs g)(p := (player_objs g p)\<lparr>pl_view := None, pl_disposed := True\<rparr>)"
    and "outbox (handleUserDisconnect u g) =
           outbox g @ [(EntityDelete (ent_id (entity_objs g e)), None)]"
proof -
  have same: "pl_user (if q = p then (player_objs g p)\<lparr>pl_view := None\<rparr> else player_objs g q) =
      pl_user (player_objs g q)" for q
    by simp
  show "entities (handleUserDisconnect u g) = removeAll e (entities g)"
    and "entity_objs (handleUserDisconnect u g) = entity_objs g"
    and "player_objs (handleUserDisconnect u g) =
           (player_objs g)(p := (player_objs g p)\<lparr>pl_view := None, pl_disposed := True\<rparr>)"
    and "outbox (handleUserDisconnect u g) =
           outbox g @ [(EntityDelete (ent_id (entity_objs g e)), None)]"
    using assms by (simp_all add: handleUserDisconnect_def Let_def collab_defs)
  show "players (handleUserDisconnect u g) =
           filter (\<lambda>q. pl_user (player_objs g q) \<noteq> u) (players g)"
    using assms by (simp add: handleUserDisconnect_def Let_def collab_defs same)
qed

lemma simulate_poll_only:
  "update_simulate poll idle_player_update idle_state_update fr g = poll g"
proof -
  have "fold (idle_player_update fr) ps h = h" for ps h
    by (induction ps) (simp_all add: idle_player_update_def)
  then show ?thesis
    by (simp add: update_simulate_def idle_state_update_def Let_def)
qed

subsection \<open>Examples of ticks\<close>

lemma idle_update:
  "update idle_poll idle_player_update idle_state_update fr g = update_broadcast fr g"
  by (simp add: update_def idle_simulate)

lemma round_double_pos:
  assumes "0 < x" and "binade x = e"
    and "round_half_even (x / pow2 (max e (- 1022) - 52)) = n"
    and "of_int n * pow2 (max e (- 1022) - 52) = r" and "r < 2 ^ 1024"
  shows "round_double x = Num r"
  using assms by (simp add: round_double_def Let_def)

text \<open>
  The products \<open>1.5 * 1000\<close> and \<open>3000000 * 1000\<close> are exact; the double nearest
  0.3 is a little below 0.3, and its product with 1000 rounds to 300.
\<close>

lemma times_examples:
  "js_times (Num (3 / 2)) (Num 1000) = Num 1500"
  "js_times (Num 3000000) (Num 1000) = Num 3000000000"
  "round_double (3 / 10) = Num (5404319552844595 / 2 ^ 54)"
  "js_times (Num (5404319552844595 / 2 ^ 54)) (Num 1000) = Num 300"
proof -
  have "round_double (3 / 2 * 1000) = Num 1500"
    by (rule round_double_pos[where e = 10 and n = "1500 * 2 ^ 42"])
       (simp_all add: binade_def pow2_def round_half_even_def Let_def)
  then show "js_times (Num (3 / 2)) (Num 1000) = Num 1500"
    by (simp only: js_times.simps)
  have "round_double (3000000 * 1000) = Num 3000000000"
    by (rule round_double_pos[where e = 31 and n = "3000000000 * 2 ^ 21"])
       (simp_all add: binade_def pow2_def round_half_even_def Let_def)
  then show "js_times (Num 3000000) (Num 1000) = Num 3000000000"
    by (simp only: js_times.simps)
  show "round_double (3 / 10) = Num (5404319552844595 / 2 ^ 54)"
    by (rule round_double_pos[where e = "- 2" and n = 5404319552844595])
       (simp_all add: binade_def pow2_def round_half_even_def Let_def)
  have "round_double (5404319552844595 / 2 ^ 54 * 1000) = Num 300"
    by (rule round_double_pos[where e = 8 and n = "300 * 2 ^ 44"])
       (simp_all add: binade_def pow2_def round_half_even_def Let_def)
  then show "js_times (Num (5404319552844595 / 2 ^ 54)) (Num 1000) = Num 300"
    by (simp only: js_times.simps)
qed

lemma stamp_examples:
  "frame_stamp \<lparr>frame_time = Num (3 / 2)\<rparr> = 1500"
  "frame_stamp \<lparr>frame_time = Num 3000000\<rparr> = - 1294967296"
  "frame_stamp \<lparr>frame_time = round_double (3 / 10)\<rparr> = 300"
proof -
  have "frame_stamp \<lparr>frame_time = Num (3 / 2)\<rparr> = ToInt32 (Num 1500)"
    by (simp only: frame_stamp_def js_bitor0_def frame.select_convs times_examples)
  then show "frame_stamp \<lparr>frame_time = Num (3 / 2)\<rparr> = 1500"
    by (simp add: js_trunc_def wrap_int32_def)
  have "frame_stamp \<lparr>frame_time = Num 3000000\<rparr> = ToInt32 (Num 3000000000)"
    by (simp only: frame_stamp_def js_bitor0_def frame.select_convs times_examples)
  then show "frame_stamp \<lparr>frame_time = Num 3000000\<rparr> = - 1294967296"
    by (simp add: js_trunc_def wrap_int32_def)
  have "frame_stamp \<lparr>frame_time = round_double (3 / 10)\<rparr> = ToInt32 (Num 300)"
    by (simp only: frame_stamp_def js_bitor0_def frame.select_convs times_examples)
  then show "frame_stamp \<lparr>frame_time = round_double (3 / 10)\<rparr> = 300"
    by (simp add: js_trunc_def wrap_int32_def)
qed

lemma alice_moved:
  "players (moved 2 alice_alone) = [0]"
  "entities (moved 2 alice_alone) = [2]"
  "outbox (moved 2 alice_alone) = outbox alice_alone"
  "player_objs (moved 2 alice_alone) = player_objs alice_alone"
  "entity_objs (moved 2 alice_alone) 2 =
     \<lparr>ent_id = 0, ent_flags = USER_CONTROLLED, ent_player = Some 0,
      ent_state = \<lparr>position = [0, 80, 0], rotation = [0, 0, 0, 1], velocity = [0, 0, 0],
                   time = 0\<rparr>,
      hasSentLatestState = False\<rparr>"
  by (simp_all add: moved_fields alice_connected)

lemma alice_sequence:
  "players (sequence_state a b 0 (moved 2 alice_alone)) = [0]"
  "entities (sequence_state a b 0 (moved 2 alice_alone)) = [2]"
  "outbox (sequence_state a b 0 (moved 2 alice_alone)) = outbox alice_alone"
  "entity_objs (sequence_state a b 0 (moved 2 alice_alone)) = entity_objs (moved 2 alice_alone)"
  "player_objs (sequence_state a b 0 (moved 2 alice_alone)) 0 =
     \<lparr>pl_user = alice, pl_entity = Some 2, pl_view = Some 1,
      pl_movement = Some \<lparr>mv_view = 1, mv_target = Some 2, lastSequence = a,
                          lastSequenceSent = b, mv_queue = []\<rparr>,
      pl_disposed = False\<rparr>"
  by (simp_all add: sequence_state_def update_player_def alice_moved alice_connected)

lemma alice_delta:
  "delta_set fr (sequence_state a b 0 (moved 2 alice_alone)) =
     [\<lparr>position = [0, 80, 0], rotation = [0, 0, 0, 1], velocity = [0, 0, 0],
       time = frame_stamp fr\<rparr>]"
  "delta_set fr (moved 2 alice_alone) =
     [\<lparr>position = [0, 80, 0], rotation = [0, 0, 0, 1], velocity = [0, 0, 0],
       time = frame_stamp fr\<rparr>]"
  by (simp_all add: delta_set_def alice_sequence alice_moved Let_def)

text \<open>Both users connected and alice's entity has moved; and the same after a tick.\<close>

lemma both_moved:
  "players (moved 2 alice_and_bob) = [0, 3]"
  "entities (moved 2 alice_and_bob) = [2, 5]"
  "user_data (moved 2 alice_and_bob) alice = Some 0"
  "pl_user (player_objs (moved 2 alice_and_bob) 0) = alice"
  "pl_user (player_objs (moved 2 alice_and_bob) 3) = bob"
  "pl_entity (player_objs (moved 2 alice_and_bob) 0) = Some 2"
  "pl_view (player_objs (moved 2 alice_and_bob) 0) = Some 1"
  "sequence_pending (player_objs (moved 2 alice_and_bob) 0) = False"
  "sequence_pending (player_objs (moved 2 alice_and_bob) 3) = False"
  "hasSentLatestState (entity_objs (moved 2 alice_and_bob) 2) = False"
  "ent_id (entity_objs (moved 2 alice_and_bob) 2) = 0"
  by (simp_all add: moved_fields bob_connected alice_connected sequence_pending_def)

lemma both_after_tick:
  "players (update_broadcast fr (moved 2 alice_and_bob)) = [0, 3]"
  "entities (update_broadcast fr (moved 2 alice_and_bob)) = [2, 5]"
  "user_data (update_broadcast fr (moved 2 alice_and_bob)) alice = Some 0"
  "pl_user (player_objs (update_broadcast fr (moved 2 alice_and_bob)) 0) = alice"
  "pl_user (player_objs (update_broadcast fr (moved 2 alice_and_bob)) 3) = bob"
  "pl_entity (player_objs (update_broadcast fr (moved 2 alice_and_bob)) 0) = Some 2"
  "pl_view (player_objs (update_broadcast fr (moved 2 alice_and_bob)) 0) = Some 1"
  "sequence_pending (player_objs (update_broadcast fr (moved 2 alice_and_bob)) 0) = False"
  "sequence_pending (player_objs (update_broadcast fr (moved 2 alice_and_bob)) 3) = False"
  "hasSentLatestState (entity_objs (update_broadcast fr (moved 2 alice_and_bob)) 2)"
  "hasSentLatestState (entity_objs (update_broadcast fr (moved 2 alice_and_bob)) 5)"
  "ent_id (entity_objs (update_broadcast fr (moved 2 alice_and_bob)) 2) = 0"
  by (simp_all add: update_broadcast_fields update_broadcast_more_fields both_moved
      mark_acked_simps mark_acked_links stamped_def)

subsection \<open>How many packets a player is sent\<close>

text \<open>
  C2, as amended. In a call of \<open>update(frame)\<close> the packets handed to the session by
  the broadcast loop are, in the order of the roster, one block per player: a single
  EntityPosition addressed to the player's user if the delta set of the tick is not
  empty or the player's movement controller has \<open>lastSequence != lastSequenceSent\<close>,
  and nothing otherwise. So each player is sent 0 or 1 packets, and where no two players
  share a user the number of EntityPosition packets addressed to a player's user is 1 or
  0 accordingly. The delta set is that of the entities of the table whose
  \<open>hasSentLatestState\<close> is false when the scan starts: flags and counters are read in
  the state \<open>g1\<close> that \<open>session.poll()\<close>, the \<open>player.update\<close> loop and
  \<open>state.update\<close> of the same call leave, not at the start of the call. The roster
  holds each player object once.
\<close>

theorem update_one_position_packet:
  assumes "g1 = update_simulate poll player_update state_update fr g"
    and "g' = update poll player_update state_update fr g"
    and "distinct (players g1)"
  shows "tick_packets g1 g' =
           concat (map (\<lambda>q. position_packet (delta_set fr g1) (player_objs g1 q)) (players g1))
       \<and> (\<forall>q. position_packet (delta_set fr g1) (player_objs g1 q) =
            (if (\<exists>r \<in> set (entities g1). \<not> hasSentLatestState (entity_objs g1 r))
                \<or> sequence_pending (player_objs g1 q)
             then [(EntityPosition (ack_sequence (player_objs g1 q)) (delta_set fr g1),
                    Some (pl_user (player_objs g1 q)))]
             else []))
       \<and> (distinct (map (\<lambda>q. pl_user (player_objs g1 q)) (players g1)) \<longrightarrow>
            (\<forall>p \<in> set (players g1).
               positions_sent_to (pl_user (player_objs g1 p)) (tick_packets g1 g') =
                 (if (\<exists>r \<in> set (entities g1). \<not> hasSentLatestState (entity_objs g1 r))
                     \<or> sequence_pending (player_objs g1 p)
                  then 1 else 0)))"
proof -
  have g': "g' = update_broadcast fr g1"
    by (simp add: assms(1,2) update_def)
  have tp: "tick_packets g1 g' =
      concat (map (\<lambda>q. position_packet (delta_set fr g1) (player_objs g1 q)) (players g1))"
    by (simp add: tick_packets_def g' update_broadcast_outbox[OF assms(3)])
  have block: "\<forall>q. position_packet (delta_set fr g1) (player_objs g1 q) =
            (if (\<exists>r \<in> set (entities g1). \<not> hasSentLatestState (entity_objs g1 r))
                \<or> sequence_pending (player_objs g1 q)
             then [(EntityPosition (ack_sequence (player_objs g1 q)) (delta_set fr g1),
                    Some (pl_user (player_objs g1 q)))]
             else [])"
    by (simp add: position_packet_def delta_set_empty)
  have count: "positions_sent_to (pl_user (player_objs g1 p)) (tick_packets g1 g') =
                 (if (\<exists>r \<in> set (entities g1). \<not> hasSentLatestState (entity_objs g1 r))
                     \<or> sequence_pending (player_objs g1 p)
                  then 1 else 0)"
    if du: "distinct (map (\<lambda>q. pl_user (player_objs g1 q)) (players g1))"
      and p: "p \<in> set (players g1)" for p
  proof -
    have "positions_sent_to (pl_user (player_objs g1 p))
          (concat (map (\<lambda>q. position_packet (delta_set fr g1) (player_objs g1 q))
             (players g1))) =
        length (position_packet (delta_set fr g1) (player_objs g1 p))"
      by (rule count_in_concat[where f = "\<lambda>q. pl_user (player_objs g1 q)"
            and a = "\<lambda>q. ack_sequence (player_objs g1 q)" and sts = "delta_set fr g1",
            OF du p])
         (auto simp: position_packet_def)
    then show ?thesis
      by (simp add: tp position_packet_def delta_set_empty)
  qed
  from tp block count show ?thesis
    by blast
qed

text \<open>
  Alice and bob are connected and alice's entity has moved: the tick sends each of them
  one EntityPosition. In the next tick nothing has changed and nothing is to be
  confirmed: neither is sent one.
\<close>

theorem update_one_position_packet_witness:
  "distinct (players (moved 2 alice_and_bob))
   \<and> distinct (map (\<lambda>q. pl_user (player_objs (moved 2 alice_and_bob) q))
        (players (moved 2 alice_and_bob)))
   \<and> players (moved 2 alice_and_bob) = [0, 3]
   \<and> positions_sent_to alice
        (tick_packets (moved 2 alice_and_bob) (idle_tick at_1500ms (moved 2 alice_and_bob))) = 1
   \<and> positions_sent_to bob
        (tick_packets (moved 2 alice_and_bob) (idle_tick at_1500ms (moved 2 alice_and_bob))) = 1
   \<and> positions_sent_to alice
        (tick_packets (idle_tick at_1500ms (moved 2 alice_and_bob))
          (idle_tick at_2500ms (idle_tick at_1500ms (moved 2 alice_and_bob)))) = 0
   \<and> positions_sent_to bob
        (tick_packets (idle_tick at_1500ms (moved 2 alice_and_bob))
          (idle_tick at_2500ms (idle_tick at_1500ms (moved 2 alice_and_bob)))) = 0"
proof -
  let ?g = "moved 2 alice_and_bob"
  let ?g' = "idle_tick at_1500ms ?g"
  have d: "distinct (players ?g)" and d': "distinct (players ?g')"
    by (simp_all add: both_moved idle_update both_after_tick)
  have du: "distinct (map (\<lambda>q. pl_user (player_objs ?g q)) (players ?g))"
    and du': "distinct (map (\<lambda>q. pl_user (player_objs ?g' q)) (players ?g'))"
    by (simp_all add: both_moved idle_update both_after_tick users_differ)
  note first = update_one_position_packet[where poll = idle_poll
      and player_update = idle_player_update and state_update = idle_state_update
      and fr = "at_1500ms" and g = ?g, OF refl refl, unfolded idle_simulate, OF d]
  note second = update_one_position_packet[where poll = idle_poll
      and player_update = idle_player_update and state_update = idle_state_update
      and fr = "at_2500ms" and g = ?g', OF refl refl, unfolded idle_simulate, OF d']
  from first du have
    "\<forall>p \<in> set (players ?g).
       positions_sent_to (pl_user (player_objs ?g p)) (tick_packets ?g ?g') =
       (if (\<exists>r \<in> set (entities ?g). \<not> hasSentLatestState (entity_objs ?g r))
           \<or> sequence_pending (player_objs ?g p) then 1 else 0)"
    by blast
  then have a: "positions_sent_to alice (tick_packets ?g ?g') = 1"
    and b: "positions_sent_to bob (tick_packets ?g ?g') = 1"
    by (simp_all add: both_moved)
  from second du' have
    "\<forall>p \<in> set (players ?g').
       positions_sent_to (pl_user (player_objs ?g' p)) (tick_packets ?g' (idle_tick at_2500ms ?g')) =
       (if (\<exists>r \<in> set (entities ?g'). \<not> hasSentLatestState (entity_objs ?g' r))
           \<or> sequence_pending (player_objs ?g' p) then 1 else 0)"
    by blast
  then have a': "positions_sent_to alice (tick_packets ?g' (idle_tick at_2500ms ?g')) = 0"
    and b': "positions_sent_to bob (tick_packets ?g' (idle_tick at_2500ms ?g')) = 0"
    by (simp_all add: idle_update both_after_tick)
  from d du a b a' b' show ?thesis
    by (simp add: both_moved)
qed

text \<open>
  The claim as stated reads the delta set at the start of the tick. First: after a tick
  alice's entity is marked sent and nothing is to be confirmed; in the next call her
  \<open>player.update\<close> moves the entity, and she is sent one packet although no entity was
  unsent when the call started. Second: alice's entity is unsent when the call starts
  and the poll delivers her disconnect, which removes the entity from the table; bob,
  still connected, is sent no packet although an entity was unsent when the call
  started.
\<close>

theorem update_delta_read_at_scan:
  "entities (idle_tick at_1500ms alice_alone) = [2]
   \<and> hasSentLatestState (entity_objs (idle_tick at_1500ms alice_alone) 2)
   \<and> players (idle_tick at_1500ms alice_alone) = [0]
   \<and> pl_user (player_objs (idle_tick at_1500ms alice_alone) 0) = alice
   \<and> sequence_pending (player_objs (idle_tick at_1500ms alice_alone) 0) = False
   \<and> sequence_pending (player_objs
        (update_simulate idle_poll moving_player_update idle_state_update at_2500ms
          (idle_tick at_1500ms alice_alone)) 0) = False
   \<and> positions_sent_to alice
        (tick_packets (idle_tick at_1500ms alice_alone)
          (tick_with_movement at_2500ms (idle_tick at_1500ms alice_alone))) = 1
   \<and> 2 \<in> set (entities (moved 2 (idle_tick at_1500ms alice_and_bob)))
   \<and> hasSentLatestState (entity_objs (moved 2 (idle_tick at_1500ms alice_and_bob)) 2) = False
   \<and> players (moved 2 (idle_tick at_1500ms alice_and_bob)) = [0, 3]
   \<and> pl_user (player_objs (moved 2 (idle_tick at_1500ms alice_and_bob)) 3) = bob
   \<and> players (tick_with_disconnect alice at_2500ms
        (moved 2 (idle_tick at_1500ms alice_and_bob))) = [3]
   \<and> positions_sent_to bob
        (tick_packets (moved 2 (idle_tick at_1500ms alice_and_bob))
          (tick_with_disconnect alice at_2500ms (moved 2 (idle_tick at_1500ms alice_and_bob)))) = 0"
proof -
  let ?h = "idle_tick at_1500ms alice_alone"
  have h: "players ?h = [0]" "entities ?h = [2]"
      "hasSentLatestState (entity_objs ?h 2)"
      "pl_user (player_objs ?h 0) = alice"
      "pl_entity (player_objs ?h 0) = Some 2"
      "sequence_pending (player_objs ?h 0) = False"
    by (simp_all add: idle_update update_broadcast_fields alice_connected mark_acked_simps
        mark_acked_links stamped_def)
  have sim: "update_simulate idle_poll moving_player_update idle_state_update at_2500ms ?h =
      moved 2 ?h"
    by (simp add: update_simulate_def idle_poll_def idle_state_update_def Let_def
        moving_player_update_def h)
  have dh: "distinct (players (moved 2 ?h))"
    by (simp add: moved_fields h)
  have ne: "delta_set at_2500ms (moved 2 ?h) \<noteq> []"
    by (simp add: delta_set_empty moved_fields h)
  have one: "positions_sent_to alice (tick_packets ?h (tick_with_movement at_2500ms ?h)) = 1"
    using ne
    by (simp add: update_def[where player_update = moving_player_update] sim tick_packets_def
        update_broadcast_outbox[OF dh] moved_fields h position_packet_def positions_sent_to_def)
  let ?k = "moved 2 (idle_tick at_1500ms alice_and_bob)"
  have t: "players (idle_tick at_1500ms alice_and_bob) = [0, 3]" "entities (idle_tick at_1500ms alice_and_bob) = [2, 5]"
      "user_data (idle_tick at_1500ms alice_and_bob) alice = Some 0"
      "pl_user (player_objs (idle_tick at_1500ms alice_and_bob) 0) = alice"
      "pl_user (player_objs (idle_tick at_1500ms alice_and_bob) 3) = bob"
      "pl_entity (player_objs (idle_tick at_1500ms alice_and_bob) 0) = Some 2"
      "pl_view (player_objs (idle_tick at_1500ms alice_and_bob) 0) = Some 1"
      "sequence_pending (player_objs (idle_tick at_1500ms alice_and_bob) 3) = False"
      "hasSentLatestState (entity_objs (idle_tick at_1500ms alice_and_bob) 5)"
      "ent_id (entity_objs (idle_tick at_1500ms alice_and_bob) 2) = 0"
    by (simp_all add: idle_update update_broadcast_fields update_broadcast_more_fields
        bob_connected alice_connected mark_acked_simps mark_acked_links stamped_def)
  have k: "user_data ?k alice = Some 0" "pl_entity (player_objs ?k 0) = Some 2"
      "pl_view (player_objs ?k 0) = Some 1"
    by (simp_all add: moved_fields t)
  note dis = handleUserDisconnect_fields[OF k]
  let ?kd = "handleUserDisconnect alice ?k"
  have kd: "players ?kd = [3]" "entities ?kd = [5]"
      "hasSentLatestState (entity_objs ?kd 5)"
      "sequence_pending (player_objs ?kd 3) = False"
      "outbox ?kd = outbox ?k @ [(EntityDelete 0, None)]"
    by (simp_all add: dis moved_fields t users_differ)
  have dk: "distinct (players ?kd)"
    by (simp add: kd)
  have empty: "delta_set at_2500ms ?kd = []"
    by (simp add: delta_set_empty kd)
  have none: "positions_sent_to bob (tick_packets ?k (tick_with_disconnect alice at_2500ms ?k)) = 0"
    by (simp add: update_def[where poll = "handleUserDisconnect alice"] simulate_poll_only
        tick_packets_def update_broadcast_outbox[OF dk] kd empty position_packet_def
        positions_sent_to_def)
  have roster: "players (tick_with_disconnect alice at_2500ms ?k) = [3]"
    by (simp add: update_def[where poll = "handleUserDisconnect alice"] simulate_poll_only
        update_broadcast_fields kd)
  have before: "2 \<in> set (entities ?k)" "hasSentLatestState (entity_objs ?k 2) = False"
      "players ?k = [0, 3]" "pl_user (player_objs ?k 3) = bob"
    by (simp_all add: moved_fields t)
  have still: "sequence_pending (player_objs
        (update_simulate idle_poll moving_player_update idle_state_update at_2500ms ?h) 0) = False"
    by (simp add: sim moved_fields h)
  from h one still before roster none show ?thesis
    by simp
qed

subsection \<open>What a packet carries\<close>

text \<open>
  C5, as amended. Every packet that \<open>update(frame)\<close> hands to the session is an
  EntityPosition addressed to the user of a player of the roster, carrying the full
  delta set of the tick and, as sequence, the \<open>lastSequence\<close> of that player's
  movement controller whenever the player has one (also when \<open>lastSequence\<close> equals
  \<open>lastSequenceSent\<close>), and \<open>-1\<close> only when the player has no movement controller.
  After the call, every movement controller of a player of the roster has
  \<open>lastSequenceSent = lastSequence\<close>.
\<close>

theorem update_packet_contents:
  assumes "g1 = update_simulate poll player_update state_update fr g"
    and "g' = update poll player_update state_update fr g"
  shows "(\<forall>x \<in> set (tick_packets g1 g'). \<exists>p \<in> set (players g1).
            x = (EntityPosition (ack_sequence (player_objs g1 p)) (delta_set fr g1),
                 Some (pl_user (player_objs g1 p))))
       \<and> (\<forall>p \<in> set (players g1). \<forall>m. pl_movement (player_objs g' p) = Some m \<longrightarrow>
            lastSequenceSent m = lastSequence m)
       \<and> (\<forall>p m. pl_movement (player_objs g1 p) = Some m \<longrightarrow>
            ack_sequence (player_objs g1 p) = lastSequence m)
       \<and> (\<forall>p. pl_movement (player_objs g1 p) = None \<longrightarrow> ack_sequence (player_objs g1 p) = - 1)"
proof -
  have g': "g' = update_broadcast fr g1"
    by (simp add: assms update_def)
  from update_broadcast_sent[of fr g1] obtain pks where
    "outbox g' = outbox g1 @ pks" and
    "\<forall>x \<in> set pks. \<exists>p \<in> set (players g1).
        x = (EntityPosition (ack_sequence (player_objs g1 p)) (delta_set fr g1),
             Some (pl_user (player_objs g1 p)))"
    unfolding g' by blast
  then have first: "\<forall>x \<in> set (tick_packets g1 g'). \<exists>p \<in> set (players g1).
            x = (EntityPosition (ack_sequence (player_objs g1 p)) (delta_set fr g1),
                 Some (pl_user (player_objs g1 p)))"
    by (simp add: tick_packets_def)
  have second: "\<forall>p \<in> set (players g1). \<forall>m. pl_movement (player_objs g' p) = Some m \<longrightarrow>
            lastSequenceSent m = lastSequence m"
    by (auto simp: g' update_broadcast_fields mark_acked_def split: option.splits)
  from first second show ?thesis
    by (simp add: ack_sequence_def)
qed

text \<open>
  Alice's controller has processed sequence 7 and the last confirmed one is 4: the
  packet of the tick carries 7, and afterwards \<open>lastSequenceSent\<close> is 7.
\<close>

theorem update_packet_contents_witness:
  "0 \<in> set (players (sequence_state 7 4 0 (moved 2 (handleUserConnect alice (ServerGame_new {})))))
   \<and> tick_packets (sequence_state 7 4 0 (moved 2 (handleUserConnect alice (ServerGame_new {}))))
        (update idle_poll idle_player_update idle_state_update \<lparr>frame_time = Num (3 / 2)\<rparr>
          (sequence_state 7 4 0 (moved 2 (handleUserConnect alice (ServerGame_new {}))))) =
       [(EntityPosition 7
           [\<lparr>position = [0, 80, 0], rotation = [0, 0, 0, 1], velocity = [0, 0, 0], time = 1500\<rparr>],
         Some alice)]
   \<and> map_option lastSequenceSent (pl_movement (player_objs
        (update idle_poll idle_player_update idle_state_update \<lparr>frame_time = Num (3 / 2)\<rparr>
          (sequence_state 7 4 0 (moved 2 (handleUserConnect alice (ServerGame_new {}))))) 0)) =
       Some 7"
proof -
  let ?k = "sequence_state 7 4 0 (moved 2 alice_alone)"
  have d: "distinct (players ?k)"
    by (simp add: alice_sequence)
  note inst = update_packet_contents[where poll = idle_poll
      and player_update = idle_player_update and state_update = idle_state_update
      and fr = "at_1500ms" and g = ?k, OF refl refl]
  have packets: "tick_packets ?k (idle_tick at_1500ms ?k) =
       [(EntityPosition 7
           [\<lparr>position = [0, 80, 0], rotation = [0, 0, 0, 1], velocity = [0, 0, 0],
             time = 1500\<rparr>],
         Some alice)]"
    by (simp add: idle_update tick_packets_def update_broadcast_outbox[OF d] alice_sequence
        alice_delta position_packet_def ack_sequence_def sequence_pending_def stamp_examples)
  have after: "pl_movement (player_objs (idle_tick at_1500ms ?k) 0) =
      Some \<lparr>mv_view = 1, mv_target = Some 2, lastSequence = 7, lastSequenceSent = 7,
             mv_queue = []\<rparr>"
    by (simp add: idle_update update_broadcast_fields alice_sequence mark_acked_def)
  from inst have "\<forall>m. pl_movement (player_objs (idle_tick at_1500ms ?k) 0) =
          Some m \<longrightarrow> lastSequenceSent m = lastSequence m"
    by (simp add: idle_simulate alice_sequence)
  then show ?thesis
    using packets after by (simp add: alice_sequence)
qed

text \<open>
  The claim as stated: alice's controller has \<open>lastSequence = lastSequenceSent = 7\<close>,
  so no acknowledgment is pending, and her entity has moved. The packet she is sent
  carries the sequence 7, not the sentinel.
\<close>

theorem update_sentinel_counterexample:
  "pl_movement (player_objs
      (sequence_state 7 7 0 (moved 2 (handleUserConnect alice (ServerGame_new {})))) 0) =
     Some \<lparr>mv_view = 1, mv_target = Some 2, lastSequence = 7, lastSequenceSent = 7, mv_queue = []\<rparr>
   \<and> tick_packets (sequence_state 7 7 0 (moved 2 (handleUserConnect alice (ServerGame_new {}))))
        (update idle_poll idle_player_update idle_state_update \<lparr>frame_time = Num (3 / 2)\<rparr>
          (sequence_state 7 7 0 (moved 2 (handleUserConnect alice (ServerGame_new {}))))) =
       [(EntityPosition 7
           [\<lparr>position = [0, 80, 0], rotation = [0, 0, 0, 1], velocity = [0, 0, 0], time = 1500\<rparr>],
         Some alice)]"
proof -
  let ?h = "sequence_state 7 7 0 (moved 2 alice_alone)"
  have d: "distinct (players ?h)"
    by (simp add: alice_sequence)
  show ?thesis
    by (simp add: idle_update tick_packets_def update_broadcast_outbox[OF d] alice_sequence
        alice_delta position_packet_def ack_sequence_def stamp_examples)
qed

subsection \<open>The timestamp\<close>

text \<open>
  C9, as amended. Every entity of the table whose \<open>hasSentLatestState\<close> is false when
  the scan of \<open>update(frame)\<close> starts gets the state timestamp
  \<open>(frame.time * 1000) | 0\<close>, that is ToInt32 of the double product
  \<open>frame.time * 1000\<close>: for a finite product its integer part reduced modulo
  \<open>2 ^ 32\<close> to a signed 32-bit value, and 0 for NaN and the infinities. Every entity
  state in every packet of the tick carries this timestamp. It is the integer part of
  the product whenever that lies between \<open>- 2 ^ 31\<close> and \<open>2 ^ 31 - 1\<close>.
\<close>

theorem update_stamps_frame_time:
  assumes "g1 = update_simulate poll player_update state_update fr g"
    and "g' = update poll player_update state_update fr g"
  shows "(\<forall>r \<in> set (entities g1). \<not> hasSentLatestState (entity_objs g1 r) \<longrightarrow>
            time (ent_state (entity_objs g' r)) = ToInt32 (js_times (frame_time fr) (Num 1000)))
       \<and> (\<forall>x \<in> set (tick_packets g1 g'). \<forall>s sts. fst x = EntityPosition s sts \<longrightarrow>
            (\<forall>st \<in> set sts. time st = ToInt32 (js_times (frame_time fr) (Num 1000))))
       \<and> (\<forall>x. js_times (frame_time fr) (Num 1000) = Num x
              \<and> - (2 ^ 31) \<le> js_trunc x \<and> js_trunc x < 2 ^ 31 \<longrightarrow>
            ToInt32 (js_times (frame_time fr) (Num 1000)) = js_trunc x)
       \<and> ((\<forall>x. js_times (frame_time fr) (Num 1000) \<noteq> Num x) \<longrightarrow>
            ToInt32 (js_times (frame_time fr) (Num 1000)) = 0)"
proof -
  have g': "g' = update_broadcast fr g1"
    by (simp add: assms update_def)
  have stamp: "frame_stamp fr = ToInt32 (js_times (frame_time fr) (Num 1000))"
    by (simp add: frame_stamp_def js_bitor0_def)
  have first: "\<forall>r \<in> set (entities g1). \<not> hasSentLatestState (entity_objs g1 r) \<longrightarrow>
            time (ent_state (entity_objs g' r)) = ToInt32 (js_times (frame_time fr) (Num 1000))"
    by (simp add: g' update_broadcast_fields stamped_def stamp)
  from update_broadcast_sent[of fr g1] obtain pks where
    "outbox g' = outbox g1 @ pks" and
    "\<forall>x \<in> set pks. \<exists>p \<in> set (players g1).
        x = (EntityPosition (ack_sequence (player_objs g1 p)) (delta_set fr g1),
             Some (pl_user (player_objs g1 p)))"
    unfolding g' by blast
  then have "\<forall>x \<in> set (tick_packets g1 g'). \<exists>s. fst x = EntityPosition s (delta_set fr g1)"
    by (fastforce simp: tick_packets_def)
  then have second: "\<forall>x \<in> set (tick_packets g1 g'). \<forall>s sts. fst x = EntityPosition s sts \<longrightarrow>
            (\<forall>st \<in> set sts. time st = ToInt32 (js_times (frame_time fr) (Num 1000)))"
    using delta_set_time[of _ fr g1] by (fastforce simp: stamp)
  have third: "\<forall>x. js_times (frame_time fr) (Num 1000) = Num x
              \<and> - (2 ^ 31) \<le> js_trunc x \<and> js_trunc x < 2 ^ 31 \<longrightarrow>
            ToInt32 (js_times (frame_time fr) (Num 1000)) = js_trunc x"
    by (simp add: wrap_int32_id)
  have fourth: "(\<forall>x. js_times (frame_time fr) (Num 1000) \<noteq> Num x) \<longrightarrow>
            ToInt32 (js_times (frame_time fr) (Num 1000)) = 0"
    by (cases "js_times (frame_time fr) (Num 1000)") simp_all
  from first second third fourth show ?thesis by blast
qed

text \<open>
  At the frame time 0.3 s (the double nearest 0.3) the product with 1000 is the double
  300: alice's moved entity is stamped 300, and so is the packet. At a frame time that is
  NaN the product is NaN: her entity, stamped 1500 by an earlier tick and moved again, is
  stamped 0.
\<close>

theorem update_stamps_frame_time_witness:
  "2 \<in> set (entities (moved 2 alice_alone))
   \<and> hasSentLatestState (entity_objs (moved 2 alice_alone) 2) = False
   \<and> js_times (frame_time at_300ms) (Num 1000) = Num 300
   \<and> js_trunc 300 = 300
   \<and> time (ent_state (entity_objs (idle_tick at_300ms (moved 2 alice_alone)) 2)) = 300
   \<and> tick_packets (moved 2 alice_alone) (idle_tick at_300ms (moved 2 alice_alone)) =
       [(EntityPosition 0
           [\<lparr>position = [0, 80, 0], rotation = [0, 0, 0, 1], velocity = [0, 0, 0],
             time = 300\<rparr>],
         Some alice)]
   \<and> js_times (frame_time at_NaN) (Num 1000) = NaN
   \<and> 2 \<in> set (entities (moved 2 (idle_tick at_1500ms (moved 2 alice_alone))))
   \<and> hasSentLatestState
        (entity_objs (moved 2 (idle_tick at_1500ms (moved 2 alice_alone))) 2) = False
   \<and> time (ent_state
        (entity_objs (moved 2 (idle_tick at_1500ms (moved 2 alice_alone))) 2)) = 1500
   \<and> time (ent_state (entity_objs
        (idle_tick at_NaN (moved 2 (idle_tick at_1500ms (moved 2 alice_alone)))) 2)) = 0"
proof -
  let ?g = "moved 2 alice_alone"
  let ?fr = "at_300ms"
  let ?k = "moved 2 (idle_tick at_1500ms ?g)"
  have d: "distinct (players ?g)"
    by (simp add: alice_moved)
  have prod: "js_times (frame_time ?fr) (Num 1000) = Num 300"
    by (simp only: frame.select_convs times_examples)
  have tr: "js_trunc 300 = 300"
    by (simp add: js_trunc_def)
  note inst = update_stamps_frame_time[where poll = idle_poll
      and player_update = idle_player_update and state_update = idle_state_update
      and fr = ?fr and g = ?g, OF refl refl, unfolded idle_simulate prod]
  from inst have "\<forall>r \<in> set (entities ?g). \<not> hasSentLatestState (entity_objs ?g r) \<longrightarrow>
      time (ent_state (entity_objs (idle_tick ?fr ?g) r)) = ToInt32 (Num 300)"
    by blast
  then have stamped_at: "time (ent_state (entity_objs (idle_tick ?fr ?g) 2)) = 300"
    by (simp add: alice_moved js_trunc_def wrap_int32_def)
  have packets: "tick_packets ?g (idle_tick ?fr ?g) =
       [(EntityPosition 0
           [\<lparr>position = [0, 80, 0], rotation = [0, 0, 0, 1], velocity = [0, 0, 0],
             time = 300\<rparr>],
         Some alice)]"
    by (simp add: idle_update tick_packets_def update_broadcast_outbox[OF d] alice_moved
        alice_connected alice_delta position_packet_def ack_sequence_def stamp_examples)
  have nan: "js_times (frame_time at_NaN) (Num 1000) = NaN"
    by simp
  have k: "entities ?k = [2]" "hasSentLatestState (entity_objs ?k 2) = False"
      "time (ent_state (entity_objs ?k 2)) = 1500"
    by (simp_all add: moved_fields idle_update update_broadcast_fields alice_connected
        stamped_def stamp_examples)
  note inst' = update_stamps_frame_time[where poll = idle_poll
      and player_update = idle_player_update and state_update = idle_state_update
      and fr = at_NaN and g = ?k, OF refl refl, unfolded idle_simulate nan]
  from inst' have "\<forall>r \<in> set (entities ?k). \<not> hasSentLatestState (entity_objs ?k r) \<longrightarrow>
      time (ent_state (entity_objs (idle_tick at_NaN ?k) r)) = ToInt32 NaN"
    by blast
  then have unstamped: "time (ent_state (entity_objs (idle_tick at_NaN ?k) 2)) = 0"
    by (simp add: k)
  from prod tr stamped_at packets nan k unstamped show ?thesis
    by (simp add: alice_moved)
qed

text \<open>
  The claim as stated. First, the integer part: at frame time 3000000 s the product is
  3000000000, and alice's moved entity is stamped \<open>-1294967296\<close>. Second, the start of
  the call: alice's entity is unsent when \<open>update\<close> starts and the poll delivers her
  disconnect, which removes the entity from the table; the scan does not visit it, and
  it keeps its flag and its timestamp while the stamp of the frame is 1500.
\<close>

theorem update_stamp_wraps:
  "2 \<in> set (entities (moved 2 alice_alone))
   \<and> hasSentLatestState (entity_objs (moved 2 alice_alone) 2) = False
   \<and> js_times (frame_time at_3000000s) (Num 1000) = Num 3000000000
   \<and> js_trunc 3000000000 = 3000000000
   \<and> time (ent_state (entity_objs (idle_tick at_3000000s (moved 2 alice_alone)) 2)) =
       - 1294967296
   \<and> ToInt32 (js_times (frame_time at_1500ms) (Num 1000)) = 1500
   \<and> time (ent_state (entity_objs (moved 2 alice_alone) 2)) = 0
   \<and> time (ent_state (entity_objs
        (tick_with_disconnect alice at_1500ms (moved 2 alice_alone)) 2)) = 0
   \<and> hasSentLatestState (entity_objs
        (tick_with_disconnect alice at_1500ms (moved 2 alice_alone)) 2) = False"
proof -
  let ?g = "moved 2 alice_alone"
  have prod: "js_times (frame_time at_3000000s) (Num 1000) = Num 3000000000"
    by (simp only: frame.select_convs times_examples)
  have tr: "js_trunc 3000000000 = 3000000000"
    by (simp add: js_trunc_def)
  have wrapped: "time (ent_state (entity_objs (idle_tick at_3000000s ?g) 2)) = - 1294967296"
    by (simp add: idle_update update_broadcast_fields alice_moved stamped_def stamp_examples)
  have stamp: "ToInt32 (js_times (frame_time at_1500ms) (Num 1000)) = 1500"
    using stamp_examples(1) by (simp only: frame_stamp_def js_bitor0_def)
  have k: "user_data ?g alice = Some 0" "pl_entity (player_objs ?g 0) = Some 2"
      "pl_view (player_objs ?g 0) = Some 1"
    by (simp_all add: moved_fields alice_connected)
  note dis = handleUserDisconnect_fields[OF k]
  have gone: "entities (handleUserDisconnect alice ?g) = []"
    by (simp add: dis alice_moved)
  have kept: "entity_objs (tick_with_disconnect alice at_1500ms ?g) 2 = entity_objs ?g 2"
    by (simp add: update_def[where poll = "handleUserDisconnect alice"] simulate_poll_only
        update_broadcast_fields gone dis)
  from prod tr wrapped stamp show ?thesis
    by (simp add: kept alice_moved)
qed

subsection \<open>Every entity is marked sent\<close>

text \<open>
  C10. When \<open>update(frame)\<close> returns, every entity of the entity table has
  \<open>hasSentLatestState\<close> true, whether or not a packet was sent: with an empty roster
  nothing is handed to the session and the entities are marked all the same. A scan of
  the resulting state, for any later frame, finds an empty delta set: a state marked
  sent is not collected again unless something resets its flag.
\<close>

theorem update_marks_all_sent:
  assumes "g1 = update_simulate poll player_update state_update fr g"
    and "g' = update poll player_update state_update fr g"
  shows "(\<forall>r \<in> set (entities g'). hasSentLatestState (entity_objs g' r))
       \<and> entities g' = entities g1
       \<and> (players g1 = [] \<longrightarrow> outbox g' = outbox g1)
       \<and> delta_set fr' g' = []"
proof -
  have g': "g' = update_broadcast fr g1"
    by (simp add: assms update_def)
  have all: "\<forall>r \<in> set (entities g'). hasSentLatestState (entity_objs g' r)"
    by (simp add: g' update_broadcast_fields stamped_def)
  have quiet: "players g1 = [] \<longrightarrow> outbox g' = outbox g1"
    by (simp add: g' update_broadcast_def Let_def)
  from all quiet show ?thesis
    by (simp add: delta_set_empty) (simp add: g' update_broadcast_fields)
qed

text \<open>
  A server with no player and one entity that has moved: after the tick the entity is
  marked sent, nothing was sent, and the next scan collects nothing.
\<close>

theorem update_marks_all_sent_witness:
  "players (moved 0 (addEntity 0 (ServerGame_new {}))) = []
   \<and> 0 \<in> set (entities (moved 0 (addEntity 0 (ServerGame_new {}))))
   \<and> hasSentLatestState (entity_objs (moved 0 (addEntity 0 (ServerGame_new {}))) 0) = False
   \<and> hasSentLatestState (entity_objs
        (update idle_poll idle_player_update idle_state_update \<lparr>frame_time = Num (3 / 2)\<rparr>
          (moved 0 (addEntity 0 (ServerGame_new {})))) 0)
   \<and> outbox (update idle_poll idle_player_update idle_state_update \<lparr>frame_time = Num (3 / 2)\<rparr>
          (moved 0 (addEntity 0 (ServerGame_new {})))) = []
   \<and> delta_set \<lparr>frame_time = Num (5 / 2)\<rparr>
        (update idle_poll idle_player_update idle_state_update \<lparr>frame_time = Num (3 / 2)\<rparr>
          (moved 0 (addEntity 0 (ServerGame_new {})))) = []"
proof -
  let ?w = "moved 0 (addEntity 0 (ServerGame_new {}))"
  have w: "players ?w = []" "entities ?w = [0]" "outbox ?w = []"
      "hasSentLatestState (entity_objs ?w 0) = False"
    by (simp_all add: moved_def update_entity_def addEntity_def ServerGame_new_def)
  note inst = update_marks_all_sent[where poll = idle_poll
      and player_update = idle_player_update and state_update = idle_state_update
      and fr = "at_1500ms" and g = ?w and fr' = "at_2500ms",
      OF refl refl]
  show ?thesis
    using inst by (simp add: idle_simulate w)
qed

end
